theory Spec2Isabelle
  imports Main
begin

section \<open>Data model (backend/src/models/User.js)\<close>

text \<open>
  Times are JavaScript time values: milliseconds since the epoch, as \<open>Date.now()\<close> and
  \<open>Date.getTime()\<close> return them. One handler invocation reads the clock once (\<open>now\<close>).
  A document's \<open>_id\<close> is an abstract identifier; MongoDB keeps it unique.
\<close>

type_synonym time = int
type_synonym oid = nat

text \<open>An element of the schema's \<open>refreshTokens\<close> array.\<close>

record refreshTokenEntry =
  token :: string
  createdAt :: time

text \<open>
  The stored user document, with the schema's paths that the authentication code reads or
  writes. An optional path (\<open>undefined\<close> when absent) is an \<open>option\<close>. The path
  \<open>passwordConfirm\<close> is absent whenever the first save hook ran to its end. \<open>loginAttempts\<close> has the schema default 0, which Mongoose also applies to a
  loaded document that lacks the path. \<open>createdAt_user\<close> and \<open>updatedAt\<close> are the stamps
  \<open>createdAt\<close> and \<open>updatedAt\<close> of the schema option \<open>timestamps\<close>, and \<open>version\<close> is
  the version key \<open>__v\<close>; Mongoose writes them by itself. The display paths \<open>avatar\<close>,
  \<open>preferences\<close> and \<open>profile\<close>, which no authentication code writes, are left out.
\<close>

record user =
  uid :: oid
  firstName :: string
  lastName :: string
  email :: string
  username :: "string option"
  role :: string
  password :: string
  passwordConfirm :: "string option"
  passwordChangedAt :: "time option"
  passwordResetToken :: "string option"
  passwordResetExpires :: "time option"
  emailVerificationToken :: "string option"
  emailVerified :: bool
  emailVerificationExpires :: "time option"
  active :: bool
  lastLogin :: "time option"
  loginAttempts :: nat
  lockUntil :: "time option"
  refreshTokens :: "refreshTokenEntry list"
  createdAt_user :: time
  updatedAt :: time
  version :: nat

section \<open>External collaborators\<close>

text \<open>The payload of a verified token: \<open>decoded.id\<close> and \<open>decoded.iat\<close> (seconds).\<close>

record jwt_payload =
  jwt_id :: oid
  iat :: int

text \<open>
  An incoming request, as far as the handlers read it: the \<open>Authorization\<close> header, the
  cookies \<open>jwt\<close> and \<open>refreshToken\<close>, the route parameter \<open>:token\<close>, the body fields, and
  \<open>req.user\<close> (set by the Session Guard).
\<close>

record request =
  headers_authorization :: "string option"
  cookies_jwt :: "string option"
  cookies_refreshToken :: "string option"
  params_token :: string
  body_firstName :: "string option"
  body_lastName :: "string option"
  body_email :: "string option"
  body_username :: "string option"
  body_password :: "string option"
  body_passwordConfirm :: "string option"
  body_passwordCurrent :: "string option"
  req_user :: "user option"

text \<open>
  The libraries and the configuration the code calls, none of which is part of the
  repository's sources: \<open>config.jwt\<close>, the \<open>jsonwebtoken\<close> functions (\<open>jwt_sign id secret
  expiresIn now\<close> is \<open>jwt.sign({id}, secret, {expiresIn})\<close> evaluated at time \<open>now\<close>;
  \<open>jwt_verify token secret now\<close> is \<open>jwt.verify(token, secret)\<close>, \<open>Inl\<close> the name of
  the error it throws), SHA-256 in hex, bcrypt, JavaScript's \<open>String.prototype.toLowerCase\<close>
  and \<open>trim\<close> (which the schema's setters \<open>lowercase\<close> and \<open>trim\<close> call), and Mongoose's
  validation of the profile paths (names, email, username) when a document is created.
  Every theorem below that speaks of an \<open>env\<close> holds for all behaviours of these
  functions.
\<close>

record env =
  jwt_secret :: string
  jwt_expiresIn :: string
  jwt_refreshSecret :: string
  jwt_refreshExpiresIn :: string
  jwt_sign :: "oid \<Rightarrow> string \<Rightarrow> string \<Rightarrow> time \<Rightarrow> string"
  jwt_verify :: "string \<Rightarrow> string \<Rightarrow> time \<Rightarrow> string + jwt_payload"
  sha256 :: "string \<Rightarrow> string"
  bcrypt_hash :: "string \<Rightarrow> string"
  bcrypt_compare :: "string \<Rightarrow> string \<Rightarrow> bool"
  toLowerCase :: "string \<Rightarrow> string"
  trim :: "string \<Rightarrow> string"
  profile_valid :: "request \<Rightarrow> bool"

text \<open>
  Modelled from the spec: \<open>middleware/errorHandler.js\<close> (\<open>ApiError\<close>, \<open>catchAsync\<close>) is
  not among the sources. An \<open>ApiError\<close> carries the status code and the message its call
  sites give it; any other exception raised inside a \<open>catchAsync\<close> handler (a library
  error, a \<open>TypeError\<close>, a Mongoose validation or duplicate-key error) is \<open>Thrown\<close>
  with the name of its class, and reaches \<open>next\<close> the same way. The message of such an
  exception is not part of the model.
\<close>

datatype error = ApiError nat string | Thrown string

text \<open>The JSON bodies the handlers send.\<close>

datatype json =
    TokenResponse string string
  | MessageResponse string

text \<open>
  How a middleware or handler ends: \<open>next()\<close>, \<open>next(err)\<close>, or
  \<open>res.status(code).json(body)\<close>.
\<close>

datatype outcome = Next | NextErr error | Respond nat json

section \<open>Mongoose queries on the collection\<close>

text \<open>
  The collection is the list of stored documents in natural order. Every query whose name
  starts with \<open>find\<close> passes the schema's \<open>pre(/^find/)\<close> hook, which adds the condition
  \<open>active: {$ne: false}\<close>; \<open>findById\<close> is such a query. \<open>updateOne\<close> on a document
  rewrites the first stored document with that \<open>_id\<close> and passes no find hook.
\<close>

definition findOne :: "(user \<Rightarrow> bool) \<Rightarrow> user list \<Rightarrow> user option" where
  "findOne cond db = find (\<lambda>d. cond d \<and> active d \<noteq> False) db"

definition findById :: "oid \<Rightarrow> user list \<Rightarrow> user option" where
  "findById i db = findOne (\<lambda>d. uid d = i) db"

fun updateOne :: "oid \<Rightarrow> (user \<Rightarrow> user) \<Rightarrow> user list \<Rightarrow> user list" where
  "updateOne i f [] = []"
| "updateOne i f (d # ds) = (if uid d = i then f d # ds else d # updateOne i f ds)"

text \<open>
  The schema declares \<open>email\<close> with the setters \<open>lowercase\<close> and \<open>trim\<close>, and
  \<open>firstName\<close>, \<open>lastName\<close> and \<open>username\<close> with \<open>trim\<close>. Mongoose applies the setters
  of a path to a value assigned to it and to a value a query filter compares it with.
  \<open>castEmail\<close> is what becomes of an email either way (the two setters commute).
\<close>

definition castEmail :: "env \<Rightarrow> string \<Rightarrow> string" where
  "castEmail env v = toLowerCase env (trim env v)"

text \<open>
  Writes under the schema option \<open>timestamps\<close>. \<open>this.updateOne(update)\<close> sends the
  update with \<open>$set: {updatedAt}\<close> added. \<open>this.save()\<close> of a stored document with
  modified paths writes those paths (\<open>f\<close>), stamps \<open>updatedAt\<close> and, when an array
  path is among them (\<open>arrayPath\<close>), increments \<open>__v\<close>.
\<close>

definition Document_updateOne :: "time \<Rightarrow> user \<Rightarrow> (user \<Rightarrow> user) \<Rightarrow> user list \<Rightarrow> user list" where
  "Document_updateOne now this f db =
     updateOne (uid this) (\<lambda>d. (f d)\<lparr>updatedAt := now\<rparr>) db"

definition Document_save ::
  "time \<Rightarrow> user \<Rightarrow> bool \<Rightarrow> (user \<Rightarrow> user) \<Rightarrow> user list \<Rightarrow> user list" where
  "Document_save now this arrayPath f db =
     updateOne (uid this)
       (\<lambda>d. (f d)\<lparr>updatedAt := now,
                   version := (if arrayPath then version d + 1 else version d)\<rparr>) db"

section \<open>Instance methods and hooks of the schema\<close>

text \<open>The virtual \<open>isLocked\<close>: \<open>!!(this.lockUntil && this.lockUntil > Date.now())\<close>.\<close>

definition isLocked :: "time \<Rightarrow> user \<Rightarrow> bool" where
  "isLocked now this = (case lockUntil this of None \<Rightarrow> False | Some l \<Rightarrow> l > now)"

text \<open>
  \<open>parseInt(ms / 1000, 10)\<close> for an integral time value \<open>ms\<close>: the quotient with its
  fraction dropped, towards zero.
\<close>

definition parseInt_div1000 :: "time \<Rightarrow> int" where
  "parseInt_div1000 ms = (if 0 \<le> ms then ms div 1000 else - ((- ms) div 1000))"

definition changedPasswordAfter :: "user \<Rightarrow> int \<Rightarrow> bool" where
  "changedPasswordAfter this JWTTimestamp =
     (case passwordChangedAt this of
        Some t \<Rightarrow> JWTTimestamp < parseInt_div1000 t
      | None \<Rightarrow> False)"

text \<open>\<open>correctPassword\<close>: \<open>bcrypt.compare(candidatePassword, userPassword)\<close>.\<close>

definition correctPassword :: "env \<Rightarrow> string \<Rightarrow> string \<Rightarrow> bool" where
  "correctPassword env candidatePassword userPassword =
     bcrypt_compare env candidatePassword userPassword"

text \<open>
  \<open>createPasswordResetToken\<close> and \<open>createEmailVerificationToken\<close>; the argument
  \<open>resetToken\<close> is the value \<open>crypto.randomBytes(32).toString('hex')\<close> drew.
\<close>

definition createPasswordResetToken :: "env \<Rightarrow> time \<Rightarrow> string \<Rightarrow> user \<Rightarrow> string \<times> user" where
  "createPasswordResetToken env now resetToken this =
     (resetToken,
      this\<lparr>passwordResetToken := Some (sha256 env resetToken),
           passwordResetExpires := Some (now + 10 * 60 * 1000)\<rparr>)"

definition createEmailVerificationToken :: "env \<Rightarrow> time \<Rightarrow> string \<Rightarrow> user \<Rightarrow> string \<times> user" where
  "createEmailVerificationToken env now verificationToken this =
     (verificationToken,
      this\<lparr>emailVerificationToken := Some (sha256 env verificationToken),
           emailVerificationExpires := Some (now + 24 * 60 * 60 * 1000)\<rparr>)"

text \<open>
  \<open>incLoginAttempts\<close> decides from the loaded document \<open>this\<close> which update it sends;
  the result is that update, which \<open>this.updateOne\<close> applies to the stored document.
\<close>

definition incLoginAttempts :: "time \<Rightarrow> user \<Rightarrow> user \<Rightarrow> user" where
  "incLoginAttempts now this =
     (if (case lockUntil this of Some l \<Rightarrow> l < now | None \<Rightarrow> False)
      then (\<lambda>d. d\<lparr>lockUntil := None, loginAttempts := 1\<rparr>)
      else if loginAttempts this + 1 \<ge> 5 \<and> \<not> isLocked now this
      then (\<lambda>d. d\<lparr>loginAttempts := loginAttempts d + 1,
                   lockUntil := Some (now + 2 * 60 * 60 * 1000)\<rparr>)
      else (\<lambda>d. d\<lparr>loginAttempts := loginAttempts d + 1\<rparr>))"

text \<open>\<open>resetLoginAttempts\<close>: both paths are unset; the counter reads as its default.\<close>

definition resetLoginAttempts :: "user \<Rightarrow> user" where
  "resetLoginAttempts d = d\<lparr>loginAttempts := 0, lockUntil := None\<rparr>"

text \<open>
  The validators of the paths \<open>password\<close> (required, at least 8 characters) and
  \<open>passwordConfirm\<close> (required, equal to \<open>this.password\<close>), which \<open>save()\<close> runs before
  the save hooks, on the values the handler assigned.
\<close>

definition password_valid :: "string option \<Rightarrow> string option \<Rightarrow> bool" where
  "password_valid pw pc =
     (case pw of
        None \<Rightarrow> False
      | Some p \<Rightarrow> p \<noteq> [] \<and> 8 \<le> length p \<and>
          (case pc of None \<Rightarrow> False | Some el \<Rightarrow> el \<noteq> [] \<and> el = p))"

text \<open>
  The two \<open>pre('save')\<close> hooks, in the order the schema registers them; \<open>modified\<close> is
  \<open>this.isModified('password')\<close>.
\<close>

definition pre_save_hash :: "env \<Rightarrow> bool \<Rightarrow> user \<Rightarrow> error + user" where
  "pre_save_hash env modified this =
     (if \<not> modified then Inr this
      else if password this = [] then Inl (Thrown ''Error'')
      else Inr (this\<lparr>password := bcrypt_hash env (password this),
                    passwordConfirm := None\<rparr>))"

definition pre_save_changedAt :: "time \<Rightarrow> bool \<Rightarrow> bool \<Rightarrow> user \<Rightarrow> user" where
  "pre_save_changedAt now modified isNew this =
     (if \<not> modified \<or> isNew then this
      else this\<lparr>passwordChangedAt := Some (now - 1000)\<rparr>)"

section \<open>Session Guard (backend/src/middleware/auth.js)\<close>

text \<open>JavaScript's \<open>s.split(c)\<close> for a one-character separator, and \<open>s.startsWith(p)\<close>.\<close>

fun split :: "char \<Rightarrow> string \<Rightarrow> string list" where
  "split c [] = [[]]"
| "split c (x # xs) =
     (if x = c then [] # split c xs
      else (case split c xs of
              w # ws \<Rightarrow> (x # w) # ws
            | [] \<Rightarrow> [[x]]))"

definition startsWith :: "string \<Rightarrow> string \<Rightarrow> bool" where
  "startsWith s p = (take (length p) s = p)"

text \<open>
  Step 1 of \<open>protect\<close> and \<open>optionalAuth\<close>: the value of the local variable \<open>token\<close>
  (\<open>None\<close> is \<open>undefined\<close>). An empty header or cookie is falsy.
\<close>

definition getToken :: "request \<Rightarrow> string option" where
  "getToken rq =
     (let fromCookie =
            (case cookies_jwt rq of
               Some c \<Rightarrow> if c \<noteq> [] then Some c else None
             | None \<Rightarrow> None)
      in case headers_authorization rq of
           Some a \<Rightarrow>
             if a \<noteq> [] \<and> startsWith a ''Bearer''
             then (case split CHR '' '' a of
                     _ # t # _ \<Rightarrow> Some t
                   | _ \<Rightarrow> None)
             else fromCookie
         | None \<Rightarrow> fromCookie)"

definition protect :: "env \<Rightarrow> user list \<Rightarrow> time \<Rightarrow> request \<Rightarrow> request \<times> outcome" where
  "protect env db now rq =
     (case getToken rq of
        None \<Rightarrow>
          (rq, NextErr (ApiError 401 ''You are not logged in! Please log in to get access.''))
      | Some tk \<Rightarrow>
          if tk = []
          then (rq, NextErr (ApiError 401 ''You are not logged in! Please log in to get access.''))
          else
            (case jwt_verify env tk (jwt_secret env) now of
               Inl e \<Rightarrow> (rq, NextErr (Thrown e))
             | Inr decoded \<Rightarrow>
                 (case findById (jwt_id decoded) db of
                    None \<Rightarrow>
                      (rq, NextErr (ApiError 401
                         ''The user belonging to this token does no longer exist.''))
                  | Some currentUser \<Rightarrow>
                      if changedPasswordAfter currentUser (iat decoded)
                      then (rq, NextErr (ApiError 401
                              ''User recently changed password! Please log in again.''))
                      else if \<not> active currentUser
                      then (rq, NextErr (ApiError 401
                              ''Your account has been deactivated. Please contact support.''))
                      else (rq\<lparr>req_user := Some currentUser\<rparr>, Next))))"

text \<open>
  \<open>optionalAuth\<close>: everything after the extraction of the token runs inside
  \<open>try\<close>; the \<open>catch\<close> sets \<open>req.user = null\<close>.
\<close>

definition optionalAuth :: "env \<Rightarrow> user list \<Rightarrow> time \<Rightarrow> request \<Rightarrow> request \<times> outcome" where
  "optionalAuth env db now rq =
     (case getToken rq of
        None \<Rightarrow> (rq, Next)
      | Some tk \<Rightarrow>
          if tk = [] then (rq, Next)
          else
            (case jwt_verify env tk (jwt_secret env) now of
               Inl e \<Rightarrow> (rq\<lparr>req_user := None\<rparr>, Next)
             | Inr decoded \<Rightarrow>
                 (case findById (jwt_id decoded) db of
                    None \<Rightarrow> (rq, Next)
                  | Some currentUser \<Rightarrow>
                      if active currentUser \<and>
                         \<not> changedPasswordAfter currentUser (iat decoded)
                      then (rq\<lparr>req_user := Some currentUser\<rparr>, Next)
                      else (rq, Next))))"

section \<open>Token Issuer and handlers (backend/src/controllers/authController.js)\<close>

text \<open>
  The bookkeeping of \<open>createSendToken\<close> on the document: push the new entry, then keep
  the last five (\<open>slice(-5)\<close>) when there are more.
\<close>

definition storeRefreshToken :: "string \<Rightarrow> time \<Rightarrow> user \<Rightarrow> user" where
  "storeRefreshToken rt now u =
     (let pushed = refreshTokens u @ [\<lparr>token = rt, createdAt = now\<rparr>]
      in u\<lparr>refreshTokens :=
             (if length pushed > 5 then drop (length pushed - 5) pushed else pushed)\<rparr>)"

text \<open>
  \<open>createSendToken\<close>: \<open>save\<close> writes the one modified path, the array
  \<open>refreshTokens\<close>, to the stored document; the response carries the new pair.
\<close>

definition createSendToken :: "env \<Rightarrow> time \<Rightarrow> user \<Rightarrow> nat \<Rightarrow> user list \<Rightarrow> user list \<times> outcome" where
  "createSendToken env now u statusCode db =
     (let tk = jwt_sign env (uid u) (jwt_secret env) (jwt_expiresIn env) now;
          rt = jwt_sign env (uid u) (jwt_refreshSecret env) (jwt_refreshExpiresIn env) now;
          u' = storeRefreshToken rt now u;
          db' = Document_save now u True (\<lambda>d. d\<lparr>refreshTokens := refreshTokens u'\<rparr>) db
      in (db', Respond statusCode (TokenResponse tk rt)))"

text \<open>
  \<open>User.create\<close> for \<open>signup\<close>: validation, the save hooks of a new document, then the
  insert, which the unique indexes on \<open>email\<close> and \<open>username\<close> can refuse. The new
  document takes the schema defaults and both stamps; its \<open>_id\<close> is one no stored
  document has. The submitted values pass the setters of their paths.
\<close>

definition newObjectId :: "user list \<Rightarrow> oid" where
  "newObjectId db = Suc (fold max (map uid db) 0)"

definition User_create :: "env \<Rightarrow> time \<Rightarrow> request \<Rightarrow> user list \<Rightarrow> error + user" where
  "User_create env now rq db =
     (case (body_firstName rq, body_lastName rq, body_email rq, body_password rq) of
        (Some fn, Some ln, Some em, Some pw) \<Rightarrow>
          if \<not> profile_valid env rq \<or> \<not> password_valid (Some pw) (body_passwordConfirm rq)
          then Inl (Thrown ''ValidationError'')
          else
            (case pre_save_hash env True
                    \<lparr>uid = newObjectId db, firstName = trim env fn, lastName = trim env ln,
                     email = castEmail env em,
                     username = map_option (trim env) (body_username rq), role = ''user'',
                     password = pw, passwordConfirm = body_passwordConfirm rq,
                     passwordChangedAt = Some now, passwordResetToken = None,
                     passwordResetExpires = None, emailVerificationToken = None,
                     emailVerified = False, emailVerificationExpires = None,
                     active = True, lastLogin = None, loginAttempts = 0,
                     lockUntil = None, refreshTokens = [],
                     createdAt_user = now, updatedAt = now, version = 0\<rparr> of
               Inl e \<Rightarrow> Inl e
             | Inr hashed \<Rightarrow>
                 if list_ex (\<lambda>d. email d = email hashed \<or> username d = username hashed) db
                 then Inl (Thrown ''MongoServerError'')
                 else Inr (pre_save_changedAt now True True hashed))
      | _ \<Rightarrow> Inl (Thrown ''ValidationError''))"

text \<open>
  \<open>signup\<close>; \<open>rnd\<close> is the random value drawn for the email verification token. The
  query's filter passes the setters; the handler's own comparison
  \<open>existingUser.email === email\<close> is with the value as submitted. The second \<open>save\<close>
  writes the two verification paths and stamps \<open>updatedAt\<close> with the same \<open>now\<close>.
\<close>

definition signup :: "env \<Rightarrow> time \<Rightarrow> string \<Rightarrow> request \<Rightarrow> user list \<Rightarrow> user list \<times> outcome" where
  "signup env now rnd rq db =
     (case findOne (\<lambda>d. Some (email d) = map_option (castEmail env) (body_email rq) \<or>
                        username d = map_option (trim env) (body_username rq)) db of
        Some existingUser \<Rightarrow>
          (db, NextErr (ApiError 400
             (''User with this '' @
              (if Some (email existingUser) = body_email rq then ''email'' else ''username'') @
              '' already exists'')))
      | None \<Rightarrow>
          (case User_create env now rq db of
             Inl e \<Rightarrow> (db, NextErr e)
           | Inr newUser \<Rightarrow>
               (case createEmailVerificationToken env now rnd newUser of
                  (verifyToken, newUser') \<Rightarrow>
                    createSendToken env now newUser' 201 (db @ [newUser']))))"

text \<open>
  \<open>login\<close>. The filter of \<open>User.findOne({ email })\<close> passes the setters of \<open>email\<close>.
  On success \<open>resetLoginAttempts\<close> updates the stored document, \<open>save\<close> writes
  \<open>lastLogin\<close>, and \<open>createSendToken\<close> works on the loaded document.
\<close>

definition login :: "env \<Rightarrow> time \<Rightarrow> request \<Rightarrow> user list \<Rightarrow> user list \<times> outcome" where
  "login env now rq db =
     (case (body_email rq, body_password rq) of
        (Some em, Some pw) \<Rightarrow>
          if em = [] \<or> pw = []
          then (db, NextErr (ApiError 400 ''Please provide email and password!''))
          else
            (case findOne (\<lambda>d. email d = castEmail env em) db of
               None \<Rightarrow> (db, NextErr (ApiError 401 ''Incorrect email or password''))
             | Some u \<Rightarrow>
                 if isLocked now u
                 then (db, NextErr (ApiError 423
                         ''Account temporarily locked due to too many failed login attempts''))
                 else if \<not> correctPassword env pw (password u)
                 then (Document_updateOne now u (incLoginAttempts now u) db,
                       NextErr (ApiError 401 ''Incorrect email or password''))
                 else
                   createSendToken env now (u\<lparr>lastLogin := Some now\<rparr>) 200
                     (Document_save now u False (\<lambda>d. d\<lparr>lastLogin := Some now\<rparr>)
                        (Document_updateOne now u resetLoginAttempts db)))
      | _ \<Rightarrow> (db, NextErr (ApiError 400 ''Please provide email and password!'')))"

text \<open>
  \<open>logout\<close>. \<open>req.user\<close> is the document the Session Guard loaded. The assignment of
  the filtered array marks \<open>refreshTokens\<close> modified when it differs from the array
  the document had; \<open>save\<close> then writes it to the stored document, and writes nothing
  when no path is modified. The two password hooks do nothing here: the \<open>password\<close>
  path is not modified.
\<close>

definition logout :: "time \<Rightarrow> request \<Rightarrow> user list \<Rightarrow> user list \<times> outcome" where
  "logout now rq db =
     (case (cookies_refreshToken rq, req_user rq) of
        (Some rt, Some ru) \<Rightarrow>
          if rt \<noteq> []
          then (let filtered = filter (\<lambda>tokenObj. token tokenObj \<noteq> rt) (refreshTokens ru)
                in if filtered = refreshTokens ru then db
                   else Document_save now ru True (\<lambda>d. d\<lparr>refreshTokens := filtered\<rparr>) db,
                Respond 200 (MessageResponse ''Logged out successfully''))
          else (db, Respond 200 (MessageResponse ''Logged out successfully''))
      | _ \<Rightarrow> (db, Respond 200 (MessageResponse ''Logged out successfully'')))"

definition refreshToken :: "env \<Rightarrow> time \<Rightarrow> request \<Rightarrow> user list \<Rightarrow> user list \<times> outcome" where
  "refreshToken env now rq db =
     (case cookies_refreshToken rq of
        None \<Rightarrow> (db, NextErr (ApiError 401 ''No refresh token provided''))
      | Some rt \<Rightarrow>
          if rt = [] then (db, NextErr (ApiError 401 ''No refresh token provided''))
          else
            (case jwt_verify env rt (jwt_refreshSecret env) now of
               Inl e \<Rightarrow> (db, NextErr (Thrown e))
             | Inr decoded \<Rightarrow>
                 (case findById (jwt_id decoded) db of
                    None \<Rightarrow> (db, NextErr (ApiError 401 ''Invalid refresh token''))
                  | Some u \<Rightarrow>
                      if \<not> list_ex (\<lambda>tokenObj. token tokenObj = rt) (refreshTokens u)
                      then (db, NextErr (ApiError 401 ''Invalid refresh token''))
                      else createSendToken env now u 200 db)))"

text \<open>
  \<open>forgotPassword\<close>; \<open>rnd\<close> is the random value drawn for the reset token. The
  filter of \<open>User.findOne({ email: req.body.email })\<close> passes the setters of \<open>email\<close>.
  No mail is sent (the call is commented out), so the \<open>catch\<close> branch is never
  entered.
\<close>

definition forgotPassword :: "env \<Rightarrow> time \<Rightarrow> string \<Rightarrow> request \<Rightarrow> user list \<Rightarrow> user list \<times> outcome" where
  "forgotPassword env now rnd rq db =
     (case findOne (\<lambda>d. Some (email d) = map_option (castEmail env) (body_email rq)) db of
        None \<Rightarrow> (db, NextErr (ApiError 404 ''There is no user with that email address.''))
      | Some u \<Rightarrow>
          (case createPasswordResetToken env now rnd u of
             (resetToken, u') \<Rightarrow>
               (Document_save now u False
                  (\<lambda>d. d\<lparr>passwordResetToken := passwordResetToken u',
                         passwordResetExpires := passwordResetExpires u'\<rparr>) db,
                Respond 200 (MessageResponse ''Token sent to email!''))))"

text \<open>
  The \<open>save()\<close> of a stored document whose \<open>password\<close> and \<open>passwordConfirm\<close> the
  handler assigned: validation, the two hooks, then the write of the modified paths
  (\<open>clearReset\<close>: the handler also unset the reset-token paths). The result is the
  document as saved and the collection. When the \<open>password\<close> path does not count as
  modified, the first hook returns before it deletes \<open>passwordConfirm\<close>, which is then
  written as assigned. The document's other paths were validated when they were stored
  and are taken to pass again.
\<close>

definition save_password ::
  "env \<Rightarrow> time \<Rightarrow> bool \<Rightarrow> bool \<Rightarrow> request \<Rightarrow> user \<Rightarrow> user list \<Rightarrow> error + user \<times> user list" where
  "save_password env now modified clearReset rq u db =
     (case body_password rq of
        None \<Rightarrow> Inl (Thrown ''ValidationError'')
      | Some pw \<Rightarrow>
          if \<not> password_valid (Some pw) (body_passwordConfirm rq)
          then Inl (Thrown ''ValidationError'')
          else
            (case pre_save_hash env modified
                    (if clearReset
                     then u\<lparr>password := pw, passwordConfirm := body_passwordConfirm rq,
                            passwordResetToken := None, passwordResetExpires := None\<rparr>
                     else u\<lparr>password := pw, passwordConfirm := body_passwordConfirm rq\<rparr>) of
               Inl e \<Rightarrow> Inl e
             | Inr hashed \<Rightarrow>
                 (let saved = pre_save_changedAt now modified False hashed
                  in Inr (saved,
                          Document_save now u False
                            (\<lambda>d. if clearReset
                                  then d\<lparr>password := password saved,
                                         passwordConfirm := passwordConfirm saved,
                                         passwordChangedAt := passwordChangedAt saved,
                                         passwordResetToken := None,
                                         passwordResetExpires := None\<rparr>
                                  else d\<lparr>password := password saved,
                                         passwordConfirm := passwordConfirm saved,
                                         passwordChangedAt := passwordChangedAt saved\<rparr>)
                            db))))"

text \<open>
  \<open>resetPassword\<close>. The document is loaded without its \<open>password\<close> path, so the
  assignment always marks the path modified.
\<close>

definition resetPassword :: "env \<Rightarrow> time \<Rightarrow> request \<Rightarrow> user list \<Rightarrow> user list \<times> outcome" where
  "resetPassword env now rq db =
     (let hashedToken = sha256 env (params_token rq)
      in case findOne (\<lambda>d. passwordResetToken d = Some hashedToken \<and>
                            (case passwordResetExpires d of
                               Some e \<Rightarrow> e > now
                             | None \<Rightarrow> False)) db of
           None \<Rightarrow> (db, NextErr (ApiError 400 ''Token is invalid or has expired''))
         | Some u \<Rightarrow>
             (case save_password env now True True rq u db of
                Inl e \<Rightarrow> (db, NextErr e)
              | Inr (saved, db') \<Rightarrow> createSendToken env now saved 200 db'))"

text \<open>
  \<open>updatePassword\<close>. The document is loaded with its \<open>password\<close> path, so the
  assignment marks the path modified when the submitted value differs from the stored
  one. Without \<open>req.user\<close>, without the stored document, or without a current password
  the handler raises.
\<close>

definition updatePassword :: "env \<Rightarrow> time \<Rightarrow> request \<Rightarrow> user list \<Rightarrow> user list \<times> outcome" where
  "updatePassword env now rq db =
     (case req_user rq of
        None \<Rightarrow> (db, NextErr (Thrown ''TypeError''))
      | Some ru \<Rightarrow>
          (case findById (uid ru) db of
             None \<Rightarrow> (db, NextErr (Thrown ''TypeError''))
           | Some u \<Rightarrow>
               (case body_passwordCurrent rq of
                  None \<Rightarrow> (db, NextErr (Thrown ''Error''))
                | Some cur \<Rightarrow>
                    if \<not> correctPassword env cur (password u)
                    then (db, NextErr (ApiError 401 ''Your current password is wrong.''))
                    else
                      (case save_password env now (body_password rq \<noteq> Some (password u))
                              False rq u db of
                         Inl e \<Rightarrow> (db, NextErr e)
                       | Inr (saved, db') \<Rightarrow> createSendToken env now saved 200 db'))))"

text \<open>\<open>verifyEmail\<close>; \<open>save\<close> writes the three verification paths.\<close>

definition verifyEmail :: "env \<Rightarrow> time \<Rightarrow> request \<Rightarrow> user list \<Rightarrow> user list \<times> outcome" where
  "verifyEmail env now rq db =
     (let hashedToken = sha256 env (params_token rq)
      in case findOne (\<lambda>d. emailVerificationToken d = Some hashedToken \<and>
                            (case emailVerificationExpires d of
                               Some e \<Rightarrow> e > now
                             | None \<Rightarrow> False)) db of
           None \<Rightarrow> (db, NextErr (ApiError 400 ''Token is invalid or has expired''))
         | Some u \<Rightarrow>
             (Document_save now u False
                (\<lambda>d. d\<lparr>emailVerified := True, emailVerificationToken := None,
                       emailVerificationExpires := None\<rparr>) db,
              Respond 200 (MessageResponse ''Email verified successfully!'')))"

section \<open>Sequences of requests (backend/src/routes/auth.js)\<close>

text \<open>
  The routes of the authentication router. \<open>logout\<close> and \<open>update-password\<close> are mounted
  behind \<open>router.use(protect)\<close>: the handler runs only when the guard called \<open>next()\<close>,
  on the request the guard left.
\<close>

datatype operation =
    Signup string request
  | Login request
  | Refresh request
  | Logout request
  | ForgotPassword string request
  | ResetPassword request
  | UpdatePassword request
  | VerifyEmail request

fun step :: "env \<Rightarrow> time \<times> operation \<Rightarrow> user list \<Rightarrow> user list" where
  "step env (now, Signup rnd rq) db = fst (signup env now rnd rq db)"
| "step env (now, Login rq) db = fst (login env now rq db)"
| "step env (now, Refresh rq) db = fst (refreshToken env now rq db)"
| "step env (now, Logout rq) db =
     (case protect env db now rq of
        (rq', Next) \<Rightarrow> fst (logout now rq' db)
      | _ \<Rightarrow> db)"
| "step env (now, ForgotPassword rnd rq) db = fst (forgotPassword env now rnd rq db)"
| "step env (now, ResetPassword rq) db = fst (resetPassword env now rq db)"
| "step env (now, UpdatePassword rq) db =
     (case protect env db now rq of
        (rq', Next) \<Rightarrow> fst (updatePassword env now rq' db)
      | _ \<Rightarrow> db)"
| "step env (now, VerifyEmail rq) db = fst (verifyEmail env now rq db)"

definition run :: "env \<Rightarrow> (time \<times> operation) list \<Rightarrow> user list \<Rightarrow> user list" where
  "run env ops db = fold (step env) ops db"

text \<open>The bound on the stored refresh-token lists.\<close>

definition tokens_bounded :: "user list \<Rightarrow> bool" where
  "tokens_bounded db = list_all (\<lambda>d. length (refreshTokens d) \<le> 5) db"

section \<open>A concrete environment and concrete requests\<close>

text \<open>
  One instance of the external functions, for evaluating the handlers on concrete inputs:
  a token is \<open>secret.u\<dots>u.s\<dots>s\<close> with as many \<open>u\<close> as the subject's id and as many
  \<open>s\<close> as the second it was issued in (\<open>iat = floor(now / 1000)\<close>, as \<open>jsonwebtoken\<close>
  sets it); verification checks the secret and reads both back. \<open>toLowerCase\<close> and
  \<open>trim\<close> are the ASCII ones.
\<close>

definition demo_toLowerCase :: "string \<Rightarrow> string" where
  "demo_toLowerCase s =
     map (\<lambda>c. case map_of (zip ''ABCDEFGHIJKLMNOPQRSTUVWXYZ''
                                 ''abcdefghijklmnopqrstuvwxyz'') c of
                 Some l \<Rightarrow> l
               | None \<Rightarrow> c) s"

definition demo_trim :: "string \<Rightarrow> string" where
  "demo_trim s =
     rev (dropWhile (\<lambda>c. c = CHR '' '') (rev (dropWhile (\<lambda>c. c = CHR '' '') s)))"

definition demo_sign :: "oid \<Rightarrow> string \<Rightarrow> string \<Rightarrow> time \<Rightarrow> string" where
  "demo_sign i secret expiresIn now =
     secret @ ''.'' @ replicate i CHR ''u'' @ ''.'' @ replicate (nat (now div 1000)) CHR ''s''"

definition demo_verify :: "string \<Rightarrow> string \<Rightarrow> time \<Rightarrow> string + jwt_payload" where
  "demo_verify tk secret now =
     (case split CHR ''.'' tk of
        [s, a, b] \<Rightarrow>
          if s = secret then Inr \<lparr>jwt_id = length a, iat = int (length b)\<rparr>
          else Inl ''invalid signature''
      | _ \<Rightarrow> Inl ''jwt malformed'')"

definition demo_env :: env where
  "demo_env =
     \<lparr>jwt_secret = ''k1'', jwt_expiresIn = ''7d'',
      jwt_refreshSecret = ''k2'', jwt_refreshExpiresIn = ''30d'',
      jwt_sign = demo_sign, jwt_verify = demo_verify,
      sha256 = (\<lambda>s. ''#'' @ s),
      bcrypt_hash = (\<lambda>p. ''$'' @ p),
      bcrypt_compare = (\<lambda>c h. h = ''$'' @ c),
      toLowerCase = demo_toLowerCase, trim = demo_trim,
      profile_valid = (\<lambda>rq. True)\<rparr>"

definition demo_user :: user where
  "demo_user =
     \<lparr>uid = 1, firstName = ''A'', lastName = ''B'', email = ''a@b.com'',
      username = Some ''ab1'', role = ''user'', password = ''$Secret123!'',
      passwordConfirm = None,
      passwordChangedAt = Some 0, passwordResetToken = None,
      passwordResetExpires = None, emailVerificationToken = None,
      emailVerified = False, emailVerificationExpires = None,
      active = True, lastLogin = None, loginAttempts = 0,
      lockUntil = None, refreshTokens = [],
      createdAt_user = 0, updatedAt = 0, version = 0\<rparr>"

definition demo_request :: request where
  "demo_request =
     \<lparr>headers_authorization = None, cookies_jwt = None, cookies_refreshToken = None,
      params_token = [], body_firstName = None, body_lastName = None,
      body_email = None, body_username = None, body_password = None,
      body_passwordConfirm = None, body_passwordCurrent = None, req_user = None\<rparr>"

text \<open>A login request with the given email and password.\<close>

definition login_request :: "string \<Rightarrow> string \<Rightarrow> request" where
  "login_request em pw = demo_request\<lparr>body_email := Some em, body_password := Some pw\<rparr>"

text \<open>A request carrying \<open>Authorization: Bearer tk\<close>.\<close>

definition bearer_request :: "string \<Rightarrow> request" where
  "bearer_request tk = demo_request\<lparr>headers_authorization := Some (''Bearer '' @ tk)\<rparr>"

text \<open>A request carrying the cookie \<open>refreshToken=rt\<close>.\<close>

definition refresh_request :: "string \<Rightarrow> request" where
  "refresh_request rt = demo_request\<lparr>cookies_refreshToken := Some rt\<rparr>"

text \<open>
  A request to \<open>update-password\<close> by the authenticated user \<open>ru\<close>, one to
  \<open>reset-password/:token\<close>, and one to \<open>logout\<close>.
\<close>

definition update_password_request :: "user \<Rightarrow> string \<Rightarrow> string \<Rightarrow> request" where
  "update_password_request ru cur new =
     demo_request\<lparr>req_user := Some ru, body_passwordCurrent := Some cur,
                   body_password := Some new, body_passwordConfirm := Some new\<rparr>"

definition reset_request :: "string \<Rightarrow> string \<Rightarrow> request" where
  "reset_request tk new =
     demo_request\<lparr>params_token := tk, body_password := Some new,
                   body_passwordConfirm := Some new\<rparr>"

definition logout_request :: "user \<Rightarrow> string \<Rightarrow> request" where
  "logout_request ru rt = demo_request\<lparr>cookies_refreshToken := Some rt, req_user := Some ru\<rparr>"

definition signup_request :: request where
  "signup_request =
     demo_request\<lparr>body_firstName := Some ''A'', body_lastName := Some ''B'',
                   body_email := Some ''a@b.com'', body_username := Some ''ab1'',
                   body_password := Some ''Secret123!'',
                   body_passwordConfirm := Some ''Secret123!''\<rparr>"

text \<open>The user holding the reset token \<open>r4nd0m\<close>, good until 605000.\<close>

definition demo_user_reset :: user where
  "demo_user_reset =
     demo_user\<lparr>passwordResetToken := Some ''#r4nd0m'', passwordResetExpires := Some 605000\<rparr>"

definition demo_user_two_tokens :: user where
  "demo_user_two_tokens =
     demo_user\<lparr>refreshTokens :=
       [\<lparr>token = ''a'', createdAt = 1\<rparr>, \<lparr>token = ''b'', createdAt = 2\<rparr>]\<rparr>"

definition demo_user_five_tokens :: user where
  "demo_user_five_tokens =
     demo_user\<lparr>refreshTokens :=
       [\<lparr>token = ''a'', createdAt = 1\<rparr>, \<lparr>token = ''b'', createdAt = 2\<rparr>,
        \<lparr>token = ''c'', createdAt = 3\<rparr>, \<lparr>token = ''d'', createdAt = 4\<rparr>,
        \<lparr>token = ''e'', createdAt = 5\<rparr>]\<rparr>"

text \<open>
  Five login attempts on the account \<open>a@b.com\<close>, each with a wrong password, the email
  written in several ways.
\<close>

definition five_wrong_attempts :: "(time \<times> request) list" where
  "five_wrong_attempts =
     [(1000, login_request ''a@b.com'' ''wrong1''),
      (2000, login_request ''A@B.COM'' ''wrong2''),
      (3000, login_request '' a@b.com '' ''wrong3''),
      (4000, login_request ''a@b.com'' ''wrong4''),
      (5000, login_request ''a@b.com'' ''wrong5'')]"

section \<open>Queries and updates: basic facts\<close>

lemma findOne_SomeD:
  "findOne c db = Some u \<Longrightarrow> u \<in> set db \<and> c u \<and> active u"
  by (auto simp: findOne_def find_Some_iff)

lemma findOne_None_iff:
  "findOne c db = None \<longleftrightarrow> (\<forall>d \<in> set db. \<not> (c d \<and> active d))"
  by (auto simp: findOne_def find_None_iff)

lemma findById_uid: "findById i db = Some u \<Longrightarrow> uid u = i"
  by (auto simp: findById_def dest: findOne_SomeD)

lemma map_uid_updateOne:
  "(\<And>d. uid (f d) = uid d) \<Longrightarrow> map uid (updateOne i f db) = map uid db"
  by (induction db) auto

text \<open>
  With unique ids, the document a query found is the one \<open>updateOne\<close> rewrites, and the
  query finds the rewritten document when it still matches.
\<close>

lemma find_updateOne_hit:
  "distinct (map uid db) \<Longrightarrow> find Q db = Some u \<Longrightarrow> Q (f u) \<Longrightarrow>
   find Q (updateOne (uid u) f db) = Some (f u)"
proof (induction db)
  case Nil
  then show ?case by simp
next
  case (Cons d ds)
  show ?case
  proof (cases "Q d")
    case True
    with Cons.prems have "u = d" by simp
    with Cons.prems show ?thesis by simp
  next
    case False
    with Cons.prems have f: "find Q ds = Some u" by simp
    then have "u \<in> set ds" by (auto simp: find_Some_iff)
    with Cons.prems(1) have "uid d \<noteq> uid u" by auto
    with False f Cons show ?thesis by simp
  qed
qed

lemma findOne_updateOne:
  "distinct (map uid db) \<Longrightarrow> findOne c db = Some u \<Longrightarrow> c (f u) \<Longrightarrow> active (f u) \<Longrightarrow>
   findOne c (updateOne (uid u) f db) = Some (f u)"
  unfolding findOne_def by (rule find_updateOne_hit) auto

lemma findById_member:
  "distinct (map uid db) \<Longrightarrow> u \<in> set db \<Longrightarrow> active u \<Longrightarrow> findById (uid u) db = Some u"
  unfolding findById_def findOne_def
  by (induction db) auto

lemma findById_updateOne:
  "distinct (map uid db) \<Longrightarrow> findById i db = Some u \<Longrightarrow> uid (f u) = uid u \<Longrightarrow>
   active (f u) \<Longrightarrow> findById i (updateOne i f db) = Some (f u)"
  using findOne_updateOne[of db "\<lambda>d. uid d = i" u f] findById_uid[of i db u]
  by (simp add: findById_def)

lemma updateOne_eq_map:
  "distinct (map uid db) \<Longrightarrow>
   updateOne i f db = map (\<lambda>d. if uid d = i then f d else d) db"
proof (induction db)
  case Nil
  then show ?case by simp
next
  case (Cons d ds)
  show ?case
  proof (cases "uid d = i")
    case True
    from Cons.prems have "uid d \<notin> set (map uid ds)" by simp
    with True have "\<forall>x \<in> set ds. uid x \<noteq> i" by (metis image_eqI set_map)
    then have "map (\<lambda>d. if uid d = i then f d else d) ds = ds"
      by (induction ds) auto
    with True show ?thesis by simp
  next
    case False
    with Cons show ?thesis by simp
  qed
qed

lemmas demo_defs =
  demo_env_def demo_user_def demo_request_def demo_sign_def demo_verify_def
  demo_toLowerCase_def demo_trim_def castEmail_def
  login_request_def bearer_request_def refresh_request_def update_password_request_def
  reset_request_def logout_request_def signup_request_def demo_user_reset_def
  demo_user_two_tokens_def demo_user_five_tokens_def five_wrong_attempts_def

section \<open>Refresh-token rotation\<close>

text \<open>
  Claim C2. A refresh request presents a token (a non-empty \<open>refreshToken\<close> cookie) that
  verifies under the refresh secret and whose subject resolves to a stored user. If the
  token's value is not among the \<open>token\<close>s of that user's \<open>refreshTokens\<close>, the handler
  ends with the 401 error \<open>Invalid refresh token\<close> and leaves the collection as it was:
  no token is signed and nothing is stored.
\<close>

theorem refresh_token_not_stored_rejected:
  assumes "cookies_refreshToken rq = Some rt" and "rt \<noteq> []"
    and "jwt_verify env rt (jwt_refreshSecret env) now = Inr decoded"
    and "findById (jwt_id decoded) db = Some u"
    and "rt \<notin> set (map token (refreshTokens u))"
  shows "refreshToken env now rq db = (db, NextErr (ApiError 401 ''Invalid refresh token''))"
  using assms by (auto simp: refreshToken_def list_ex_iff)

text \<open>
  The scenario of the spec: a token signed with the refresh secret for the stored user 1,
  never added to the user's list.
\<close>

theorem refresh_token_not_stored_rejected_witness:
  "refreshToken demo_env 6000 (refresh_request (demo_sign 1 ''k2'' ''30d'' 5200)) [demo_user] =
     ([demo_user], NextErr (ApiError 401 ''Invalid refresh token''))"
  by (rule refresh_token_not_stored_rejected
        [where rt = "demo_sign 1 ''k2'' ''30d'' 5200"
           and decoded = "\<lparr>jwt_id = 1, iat = 5\<rparr>" and u = demo_user])
     (simp_all add: demo_defs findById_def findOne_def eval_nat_numeral)

section \<open>Forgotten password\<close>

text \<open>
  Claim C8. When no stored user has the submitted email (as the query compares it:
  trimmed and lower-cased by the setters of the path), \<open>forgotPassword\<close> ends with the
  404 error \<open>There is no user with that email address.\<close> (not with a uniform success
  response), and the collection is unchanged: no reset token is generated or stored.
\<close>

theorem forgot_password_unknown_email_404:
  assumes "\<forall>d \<in> set db. Some (email d) \<noteq> map_option (castEmail env) (body_email rq)"
  shows "forgotPassword env now rnd rq db =
           (db, NextErr (ApiError 404 ''There is no user with that email address.''))"
proof -
  from assms
  have "findOne (\<lambda>d. Some (email d) = map_option (castEmail env) (body_email rq)) db = None"
    by (simp add: findOne_None_iff)
  then show ?thesis by (simp add: forgotPassword_def)
qed

theorem forgot_password_unknown_email_404_witness:
  "forgotPassword demo_env 1000 ''r4nd0m'' (demo_request\<lparr>body_email := Some ''X@y.org''\<rparr>)
     [demo_user] =
   ([demo_user], NextErr (ApiError 404 ''There is no user with that email address.''))"
  by (rule forgot_password_unknown_email_404) (simp add: demo_defs)

text \<open>
  The stored email \<open>a@b.com\<close> submitted as \<open>A@B.COM\<close> with a blank before it is a known
  email: the token is stored and the answer is 200.
\<close>

lemma forgot_password_casts_email:
  "forgotPassword demo_env 1000 ''r4nd0m'' (demo_request\<lparr>body_email := Some '' A@B.COM''\<rparr>)
     [demo_user] =
   ([demo_user\<lparr>passwordResetToken := Some ''#r4nd0m'', passwordResetExpires := Some 601000,
                updatedAt := 1000\<rparr>],
    Respond 200 (MessageResponse ''Token sent to email!''))"
  by (simp add: forgotPassword_def createPasswordResetToken_def Document_save_def findOne_def
        demo_defs)

text \<open>
  The same for \<open>signup\<close>: the query finds the stored \<open>a@b.com\<close> for the submitted
  \<open>A@B.COM\<close> and the request is refused; the handler's own comparison, with the value
  as submitted, then names the username.
\<close>

lemma signup_casts_email:
  "signup demo_env 1000 ''r4nd0m''
     (signup_request\<lparr>body_email := Some ''A@B.COM'', body_username := Some ''other''\<rparr>)
     [demo_user] =
   ([demo_user], NextErr (ApiError 400 ''User with this username already exists''))"
  by (simp add: signup_def findOne_def demo_defs)

section \<open>The Session Guard\<close>

text \<open>
  Claim C9, as the code has it. \<open>optionalAuth\<close> always ends with \<open>next()\<close>, whatever the
  request, the collection and the behaviour of the token library. On a request that
  arrives without a user, it attaches the user \<open>u\<close> exactly when a non-empty token was
  extracted, the token verifies, its subject resolves to \<open>u\<close>, \<open>u\<close> is active, and the
  token's \<open>iat\<close> is not below the second of \<open>passwordChangedAt\<close> (when the user has
  one). A password change stores \<open>passwordChangedAt\<close> one second before the save, so
  this is not the same as \<open>no password change after the token was issued\<close>.
\<close>

theorem optionalAuth_never_fails:
  "snd (optionalAuth env db now rq) = Next \<and>
   (req_user rq = None \<longrightarrow>
     (\<forall>u. req_user (fst (optionalAuth env db now rq)) = Some u \<longleftrightarrow>
        (\<exists>tk decoded. getToken rq = Some tk \<and> tk \<noteq> [] \<and>
           jwt_verify env tk (jwt_secret env) now = Inr decoded \<and>
           findById (jwt_id decoded) db = Some u \<and> active u \<and>
           (\<forall>t. passwordChangedAt u = Some t \<longrightarrow> parseInt_div1000 t \<le> iat decoded))))"
proof (intro conjI impI allI)
  show "snd (optionalAuth env db now rq) = Next"
    by (simp add: optionalAuth_def split: option.splits sum.splits)
next
  fix u
  assume anonymous: "req_user rq = None"
  have fresh: "\<not> changedPasswordAfter v i \<longleftrightarrow>
      (\<forall>t. passwordChangedAt v = Some t \<longrightarrow> parseInt_div1000 t \<le> i)" for v i
    by (auto simp: changedPasswordAfter_def split: option.splits)
  show "req_user (fst (optionalAuth env db now rq)) = Some u \<longleftrightarrow>
        (\<exists>tk decoded. getToken rq = Some tk \<and> tk \<noteq> [] \<and>
           jwt_verify env tk (jwt_secret env) now = Inr decoded \<and>
           findById (jwt_id decoded) db = Some u \<and> active u \<and>
           (\<forall>t. passwordChangedAt u = Some t \<longrightarrow> parseInt_div1000 t \<le> iat decoded))"
  proof (cases "getToken rq")
    case None
    with anonymous show ?thesis by (simp add: optionalAuth_def)
  next
    case (Some tk)
    show ?thesis
    proof (cases "jwt_verify env tk (jwt_secret env) now")
      case (Inl e)
      with Some anonymous show ?thesis by (simp add: optionalAuth_def)
    next
      case (Inr decoded)
      show ?thesis
      proof (cases "findById (jwt_id decoded) db")
        case None
        with Some Inr anonymous show ?thesis by (simp add: optionalAuth_def)
      next
        case found: (Some v)
        with Some Inr anonymous show ?thesis
          unfolding fresh[symmetric] by (auto simp: optionalAuth_def)
      qed
    qed
  qed
qed

text \<open>
  A token signed with another secret: the request proceeds, anonymous. A token of user 1
  that verifies: the user is attached.
\<close>

theorem optionalAuth_never_fails_witness:
  "snd (optionalAuth demo_env [demo_user] 6000 (bearer_request ''bad.u.sssss'')) = Next \<and>
   req_user (fst (optionalAuth demo_env [demo_user] 6000 (bearer_request ''bad.u.sssss''))) =
     None \<and>
   req_user (fst (optionalAuth demo_env [demo_user] 6000
                    (bearer_request (demo_sign 1 ''k1'' ''7d'' 5200)))) = Some demo_user"
proof -
  let ?bad = "bearer_request ''bad.u.sssss''"
  let ?good = "bearer_request (demo_sign 1 ''k1'' ''7d'' 5200)"
  have v: "jwt_verify demo_env ''bad.u.sssss'' (jwt_secret demo_env) 6000 =
             Inl ''invalid signature''"
    by (simp add: demo_defs)
  have g: "getToken ?bad = Some ''bad.u.sssss''"
    by (simp add: demo_defs getToken_def startsWith_def)
  have r: "req_user ?bad = None" "req_user ?good = None"
    by (simp_all add: demo_defs)
  have "\<forall>u. req_user (fst (optionalAuth demo_env [demo_user] 6000 ?bad)) \<noteq> Some u"
    using optionalAuth_never_fails[of demo_env "[demo_user]" 6000 ?bad] v g r by simp
  then have anonymous: "req_user (fst (optionalAuth demo_env [demo_user] 6000 ?bad)) = None"
    by (cases "req_user (fst (optionalAuth demo_env [demo_user] 6000 ?bad))") simp_all
  have "getToken ?good = Some (demo_sign 1 ''k1'' ''7d'' 5200) \<and>
        demo_sign 1 ''k1'' ''7d'' 5200 \<noteq> [] \<and>
        jwt_verify demo_env (demo_sign 1 ''k1'' ''7d'' 5200) (jwt_secret demo_env) 6000 =
          Inr \<lparr>jwt_id = 1, iat = 5\<rparr> \<and>
        findById (jwt_id \<lparr>jwt_id = 1, iat = 5\<rparr>) [demo_user] = Some demo_user \<and>
        active demo_user \<and>
        (\<forall>t. passwordChangedAt demo_user = Some t \<longrightarrow>
              parseInt_div1000 t \<le> iat \<lparr>jwt_id = 1, iat = 5\<rparr>)"
    by (simp add: demo_defs getToken_def startsWith_def findById_def findOne_def
          parseInt_div1000_def eval_nat_numeral)
  then have attached:
    "req_user (fst (optionalAuth demo_env [demo_user] 6000 ?good)) = Some demo_user"
    using optionalAuth_never_fails[of demo_env "[demo_user]" 6000 ?good] r by blast
  show ?thesis
    using optionalAuth_never_fails[of demo_env "[demo_user]" 6000 ?bad] anonymous attached
    by simp
qed

text \<open>
  Against claim C9 as stated. The token is issued to user 1 at 5200; the user changes
  the password at 5900, after the token was issued; at 6000 \<open>optionalAuth\<close> attaches
  the user to the request that carries the old token. The attached document is the
  one with the changed password, stamped 4900.
\<close>

theorem optionalAuth_attaches_token_older_than_password:
  "map_option uid (req_user (fst (optionalAuth demo_env
      (fst (updatePassword demo_env 5900
              (update_password_request demo_user ''Secret123!'' ''Secret456!'') [demo_user]))
      6000 (bearer_request (demo_sign 1 ''k1'' ''7d'' 5200))))) = Some 1 \<and>
   map_option password (req_user (fst (optionalAuth demo_env
      (fst (updatePassword demo_env 5900
              (update_password_request demo_user ''Secret123!'' ''Secret456!'') [demo_user]))
      6000 (bearer_request (demo_sign 1 ''k1'' ''7d'' 5200))))) = Some ''$Secret456!'' \<and>
   map_option passwordChangedAt (req_user (fst (optionalAuth demo_env
      (fst (updatePassword demo_env 5900
              (update_password_request demo_user ''Secret123!'' ''Secret456!'') [demo_user]))
      6000 (bearer_request (demo_sign 1 ''k1'' ''7d'' 5200))))) = Some (Some 4900)"
  by (simp add: optionalAuth_def updatePassword_def save_password_def demo_defs getToken_def
        startsWith_def findById_def findOne_def correctPassword_def password_valid_def
        pre_save_hash_def pre_save_changedAt_def createSendToken_def storeRefreshToken_def
        Document_save_def changedPasswordAfter_def parseInt_div1000_def eval_nat_numeral
        Let_def)

text \<open>
  Claim C7. A verified token whose subject is no stored document makes \<open>protect\<close> fail
  with the 401 message \<open>The user belonging to this token does no longer exist.\<close> The
  claim's second half, a distinct \<open>account deactivated\<close> message for a user whose
  \<open>active\<close> flag is false, is what step 5 of \<open>protect\<close> attempts; but \<open>findById\<close> passes
  the \<open>pre(/^find/)\<close> hook, which hides every such user, so the guard reports the first
  message for them too. Here: user 1 is deactivated and presents a token that verifies.
\<close>

theorem protect_inactive_user_reported_missing:
  "protect demo_env [demo_user\<lparr>active := False\<rparr>] 6000
     (bearer_request (demo_sign 1 ''k1'' ''7d'' 5200)) =
   (bearer_request (demo_sign 1 ''k1'' ''7d'' 5200),
    NextErr (ApiError 401 ''The user belonging to this token does no longer exist.''))"
  by (simp add: protect_def demo_defs getToken_def startsWith_def findById_def findOne_def
        eval_nat_numeral)

text \<open>The first half of the claim, and the unreachable branch, for every input.\<close>

lemma protect_unknown_subject:
  assumes "getToken rq = Some tk" and "tk \<noteq> []"
    and "jwt_verify env tk (jwt_secret env) now = Inr decoded"
    and "\<forall>d \<in> set db. uid d = jwt_id decoded \<longrightarrow> \<not> active d"
  shows "protect env db now rq =
           (rq, NextErr (ApiError 401 ''The user belonging to this token does no longer exist.''))"
proof -
  from assms(4) have "findById (jwt_id decoded) db = None"
    by (auto simp: findById_def findOne_None_iff)
  with assms show ?thesis by (simp add: protect_def)
qed

lemma protect_never_reports_deactivated:
  "snd (protect env db now rq) \<noteq>
     NextErr (ApiError 401 ''Your account has been deactivated. Please contact support.'')"
  by (auto simp: protect_def findById_def split: option.splits sum.splits dest: findOne_SomeD)

section \<open>Logout\<close>

text \<open>
  Claim C10, as the code has it. \<open>logout\<close> always answers 200 \<open>Logged out
  successfully\<close>. With a non-empty \<open>refreshToken\<close> cookie \<open>rt\<close> and an authenticated user
  \<open>ru\<close> (the stored document the guard loaded, ids being unique), the collection
  afterwards is the old one where only that user's document can have changed: when it
  holds entries whose \<open>token\<close> is \<open>rt\<close>, its \<open>refreshTokens\<close> loses exactly those
  entries, its \<open>updatedAt\<close> becomes the time of the save and its \<open>__v\<close> goes up by one,
  every other path staying as it was; when it holds none, it is not written. Without the
  cookie (absent or empty) or without a user, the collection is unchanged.
\<close>

theorem logout_frame:
  "snd (logout now rq db) = Respond 200 (MessageResponse ''Logged out successfully'') \<and>
   (\<forall>rt ru. cookies_refreshToken rq = Some rt \<and> rt \<noteq> [] \<and> req_user rq = Some ru \<and>
        distinct (map uid db) \<and> ru \<in> set db \<longrightarrow>
      fst (logout now rq db) =
        map (\<lambda>d. if uid d = uid ru \<and> (\<exists>e \<in> set (refreshTokens d). token e = rt)
                  then d\<lparr>refreshTokens :=
                            filter (\<lambda>e. token e \<noteq> rt) (refreshTokens d),
                         updatedAt := now, version := version d + 1\<rparr>
                  else d) db) \<and>
   (cookies_refreshToken rq = None \<or> cookies_refreshToken rq = Some [] \<or> req_user rq = None \<longrightarrow>
      fst (logout now rq db) = db)"
proof (intro conjI allI impI)
  show "snd (logout now rq db) = Respond 200 (MessageResponse ''Logged out successfully'')"
    by (simp add: logout_def split: option.splits)
next
  fix rt ru
  assume a: "cookies_refreshToken rq = Some rt \<and> rt \<noteq> [] \<and> req_user rq = Some ru \<and>
        distinct (map uid db) \<and> ru \<in> set db"
  then have ids: "distinct (map uid db)" and cookie: "cookies_refreshToken rq = Some rt"
    and nonempty: "rt \<noteq> []" and user: "req_user rq = Some ru" and stored: "ru \<in> set db"
    by simp_all
  from ids stored have same: "d = ru" if "d \<in> set db" and "uid d = uid ru" for d
    using that by (metis distinct_map inj_onD)
  let ?filtered = "filter (\<lambda>e. token e \<noteq> rt) (refreshTokens ru)"
  let ?new = "\<lambda>d. if uid d = uid ru \<and> (\<exists>e \<in> set (refreshTokens d). token e = rt)
                  then d\<lparr>refreshTokens :=
                            filter (\<lambda>e. token e \<noteq> rt) (refreshTokens d),
                         updatedAt := now, version := version d + 1\<rparr>
                  else d"
  have held: "(?filtered = refreshTokens ru) = (\<forall>e \<in> set (refreshTokens ru). token e \<noteq> rt)"
    by (rule filter_id_conv)
  show "fst (logout now rq db) = map ?new db"
  proof (cases "?filtered = refreshTokens ru")
    case True
    have "fst (logout now rq db) = db"
      using cookie nonempty user True by (simp add: logout_def Let_def)
    moreover have "map ?new db = db"
    proof (rule map_idI)
      fix d
      assume d: "d \<in> set db"
      show "?new d = d"
      proof (cases "uid d = uid ru")
        case True
        with d have "d = ru" by (rule same)
        with \<open>?filtered = refreshTokens ru\<close> held show ?thesis by simp
      next
        case False
        then show ?thesis by simp
      qed
    qed
    ultimately show ?thesis by simp
  next
    case False
    have "fst (logout now rq db) =
        updateOne (uid ru)
          (\<lambda>d. d\<lparr>refreshTokens := ?filtered, updatedAt := now, version := version d + 1\<rparr>) db"
      using cookie nonempty user False by (simp add: logout_def Let_def Document_save_def)
    also have "\<dots> =
        map (\<lambda>d. if uid d = uid ru
                  then d\<lparr>refreshTokens := ?filtered, updatedAt := now,
                         version := version d + 1\<rparr>
                  else d) db"
      using ids by (rule updateOne_eq_map)
    also have "\<dots> = map ?new db"
    proof (rule map_cong[OF refl])
      fix d
      assume d: "d \<in> set db"
      show "(if uid d = uid ru
             then d\<lparr>refreshTokens := ?filtered, updatedAt := now, version := version d + 1\<rparr>
             else d) = ?new d"
      proof (cases "uid d = uid ru")
        case True
        with d have "d = ru" by (rule same)
        with False held show ?thesis by simp
      next
        case False
        then show ?thesis by simp
      qed
    qed
    finally show ?thesis .
  qed
next
  assume "cookies_refreshToken rq = None \<or> cookies_refreshToken rq = Some [] \<or>
          req_user rq = None"
  then show "fst (logout now rq db) = db"
    by (auto simp: logout_def split: option.splits)
qed

text \<open>
  The user holds the tokens \<open>a\<close> and \<open>b\<close> and logs out at 9000 with the cookie \<open>a\<close>.
\<close>

theorem logout_frame_witness:
  "logout 9000 (logout_request demo_user_two_tokens ''a'') [demo_user_two_tokens] =
     ([demo_user\<lparr>refreshTokens := [\<lparr>token = ''b'', createdAt = 2\<rparr>], updatedAt := 9000,
                  version := 1\<rparr>],
      Respond 200 (MessageResponse ''Logged out successfully''))"
  using logout_frame[of 9000 "logout_request demo_user_two_tokens ''a''"
      "[demo_user_two_tokens]"]
  by (simp add: prod_eq_iff demo_defs)

text \<open>
  Against claim C10 as stated. The same logout: besides \<open>refreshTokens\<close>, the stored
  record's \<open>updatedAt\<close> goes from 0 to 9000 and its \<open>__v\<close> from 0 to 1.
\<close>

theorem logout_stamps_the_document:
  "map updatedAt [demo_user_two_tokens] = [0] \<and>
   map version [demo_user_two_tokens] = [0] \<and>
   map updatedAt
     (fst (logout 9000 (logout_request demo_user_two_tokens ''a'') [demo_user_two_tokens])) =
     [9000] \<and>
   map version
     (fst (logout 9000 (logout_request demo_user_two_tokens ''a'') [demo_user_two_tokens])) =
     [1]"
  by (simp add: logout_def Document_save_def demo_defs Let_def)

text \<open>The guard attaches a stored document, so \<open>logout\<close> behind it meets the premise.\<close>

lemma protect_Next_stored:
  "protect env db now rq = (rq', Next) \<Longrightarrow>
   \<exists>u \<in> set db. rq' = rq\<lparr>req_user := Some u\<rparr>"
  by (auto simp: protect_def findById_def split: option.splits sum.splits if_splits
      dest: findOne_SomeD)

section \<open>The bound on stored refresh tokens\<close>

lemma createSendToken_db:
  "fst (createSendToken env now u code db) =
     Document_save now u True
       (\<lambda>d. d\<lparr>refreshTokens := refreshTokens
          (storeRefreshToken
             (jwt_sign env (uid u) (jwt_refreshSecret env) (jwt_refreshExpiresIn env) now)
             now u)\<rparr>) db"
  by (simp add: createSendToken_def Let_def)

lemma createSendToken_outcome:
  "snd (createSendToken env now u code db) =
     Respond code
       (TokenResponse (jwt_sign env (uid u) (jwt_secret env) (jwt_expiresIn env) now)
          (jwt_sign env (uid u) (jwt_refreshSecret env) (jwt_refreshExpiresIn env) now))"
  by (simp add: createSendToken_def Let_def)

lemma storeRefreshToken_tokens:
  "refreshTokens (storeRefreshToken rt now u) =
     drop (length (refreshTokens u) + 1 - 5)
       (refreshTokens u @ [\<lparr>token = rt, createdAt = now\<rparr>])"
  by (simp add: storeRefreshToken_def Let_def)

lemma storeRefreshToken_length:
  "length (refreshTokens (storeRefreshToken rt now u)) \<le> 5"
  by (simp add: storeRefreshToken_def Let_def)

lemma bounded_updateOne:
  "tokens_bounded db \<Longrightarrow>
   (\<And>d. length (refreshTokens d) \<le> 5 \<Longrightarrow> length (refreshTokens (f d)) \<le> 5) \<Longrightarrow>
   tokens_bounded (updateOne i f db)"
  unfolding tokens_bounded_def by (induction db) auto

lemma bounded_Document_save:
  "tokens_bounded db \<Longrightarrow>
   (\<And>d. length (refreshTokens d) \<le> 5 \<Longrightarrow> length (refreshTokens (f d)) \<le> 5) \<Longrightarrow>
   tokens_bounded (Document_save now u a f db)"
  unfolding Document_save_def by (rule bounded_updateOne) simp_all

lemma bounded_Document_updateOne:
  "tokens_bounded db \<Longrightarrow>
   (\<And>d. length (refreshTokens d) \<le> 5 \<Longrightarrow> length (refreshTokens (f d)) \<le> 5) \<Longrightarrow>
   tokens_bounded (Document_updateOne now u f db)"
  unfolding Document_updateOne_def by (rule bounded_updateOne) simp_all

lemma bounded_createSendToken:
  "tokens_bounded db \<Longrightarrow> tokens_bounded (fst (createSendToken env now u code db))"
  by (simp add: createSendToken_def Let_def bounded_Document_save storeRefreshToken_length)

lemma incLoginAttempts_frame [simp]:
  "uid (incLoginAttempts now u d) = uid d"
  "email (incLoginAttempts now u d) = email d"
  "active (incLoginAttempts now u d) = active d"
  "password (incLoginAttempts now u d) = password d"
  "refreshTokens (incLoginAttempts now u d) = refreshTokens d"
  by (simp_all add: incLoginAttempts_def)

lemma bounded_login:
  "tokens_bounded db \<Longrightarrow> tokens_bounded (fst (login env now rq db))"
  by (auto simp: login_def resetLoginAttempts_def
      intro!: bounded_createSendToken bounded_Document_save bounded_Document_updateOne
      split: option.splits)

lemma bounded_refreshToken:
  "tokens_bounded db \<Longrightarrow> tokens_bounded (fst (refreshToken env now rq db))"
  by (auto simp: refreshToken_def intro!: bounded_createSendToken
      split: option.splits sum.splits)

lemma bounded_forgotPassword:
  "tokens_bounded db \<Longrightarrow> tokens_bounded (fst (forgotPassword env now rnd rq db))"
  by (auto simp: forgotPassword_def createPasswordResetToken_def
      intro!: bounded_Document_save split: option.splits)

lemma bounded_save_password:
  "tokens_bounded db \<Longrightarrow> save_password env now m c rq u db = Inr (saved, db') \<Longrightarrow>
   tokens_bounded db'"
  by (auto simp: save_password_def Let_def intro!: bounded_Document_save
      split: option.splits if_splits sum.splits)

lemma bounded_resetPassword:
  "tokens_bounded db \<Longrightarrow> tokens_bounded (fst (resetPassword env now rq db))"
  by (auto simp: resetPassword_def Let_def intro!: bounded_createSendToken
      dest: bounded_save_password split: option.splits sum.splits)

lemma bounded_updatePassword:
  "tokens_bounded db \<Longrightarrow> tokens_bounded (fst (updatePassword env now rq db))"
  by (auto simp: updatePassword_def Let_def intro!: bounded_createSendToken
      dest: bounded_save_password split: option.splits sum.splits)

lemma bounded_verifyEmail:
  "tokens_bounded db \<Longrightarrow> tokens_bounded (fst (verifyEmail env now rq db))"
  by (auto simp: verifyEmail_def Let_def intro!: bounded_Document_save split: option.splits)

lemma User_create_tokens:
  "User_create env now rq db = Inr nu \<Longrightarrow> refreshTokens nu = []"
  by (auto simp: User_create_def pre_save_hash_def pre_save_changedAt_def
      split: option.splits if_splits sum.splits)

lemma bounded_signup:
  assumes "tokens_bounded db"
  shows "tokens_bounded (fst (signup env now rnd rq db))"
proof -
  have "tokens_bounded (db @ [nu'])"
    if "User_create env now rq db = Inr nu"
      and "createEmailVerificationToken env now rnd nu = (vt, nu')" for nu vt nu'
    using that assms User_create_tokens[OF that(1)]
    by (auto simp: tokens_bounded_def createEmailVerificationToken_def)
  then show ?thesis
    using assms
    by (auto simp: signup_def intro!: bounded_createSendToken
        split: option.splits sum.splits prod.splits)
qed

lemma bounded_logout:
  assumes "tokens_bounded db" and "protect env db now rq = (rq', Next)"
  shows "tokens_bounded (fst (logout now' rq' db))"
proof -
  from protect_Next_stored[OF assms(2)] obtain u where u: "u \<in> set db" "req_user rq' = Some u"
    by auto
  with assms(1) have "length (refreshTokens u) \<le> 5"
    by (simp add: tokens_bounded_def list_all_iff)
  then have "length (filter P (refreshTokens u)) \<le> 5" for P
    using length_filter_le[of P "refreshTokens u"] by linarith
  with assms(1) u show ?thesis
    by (auto simp: logout_def Let_def intro!: bounded_Document_save split: option.splits)
qed

lemma bounded_step:
  "tokens_bounded db \<Longrightarrow> tokens_bounded (step env op db)"
proof (cases op)
  case (Pair now o')
  assume b: "tokens_bounded db"
  show ?thesis
  proof (cases o')
    case (Logout rq)
    with Pair b show ?thesis
      by (auto split: prod.splits outcome.splits dest: bounded_logout)
  next
    case (UpdatePassword rq)
    with Pair b show ?thesis
      by (auto split: prod.splits outcome.splits intro: bounded_updatePassword)
  qed (use Pair b in \<open>simp_all add: bounded_signup bounded_login bounded_refreshToken
        bounded_forgotPassword bounded_resetPassword bounded_verifyEmail\<close>)
qed

lemma bounded_run:
  "tokens_bounded db \<Longrightarrow> tokens_bounded (run env ops db)"
  unfolding run_def by (induction ops arbitrary: db) (simp_all add: bounded_step)

lemma run_append: "run env (xs @ ys) db = run env ys (run env xs db)"
  by (simp add: run_def)

text \<open>
  Claim C5. If every stored \<open>refreshTokens\<close> list has at most 5 entries (as in the
  empty collection), it stays so after every sequence of requests to the authentication
  routes: signup, login and refresh, and also logout, forgot-, reset- and
  update-password and verify-email. Each issuance stores the list with the new entry
  appended, cut to its last 5 entries, the oldest going first; for a stored user that
  list is what the collection holds afterwards, the save having stamped \<open>updatedAt\<close>
  and counted \<open>__v\<close> up.
\<close>

theorem refresh_tokens_bounded:
  assumes "tokens_bounded db"
  shows "tokens_bounded (run env ops db) \<and>
     refreshTokens (storeRefreshToken rt now u) =
       drop (length (refreshTokens u) + 1 - 5)
         (refreshTokens u @ [\<lparr>token = rt, createdAt = now\<rparr>]) \<and>
     (distinct (map uid db) \<and> findById (uid u) db = Some u \<longrightarrow>
        findById (uid u) (fst (createSendToken env now u code db)) =
          Some ((storeRefreshToken
                   (jwt_sign env (uid u) (jwt_refreshSecret env) (jwt_refreshExpiresIn env) now)
                   now u)\<lparr>updatedAt := now, version := version u + 1\<rparr>))"
proof (intro conjI impI)
  show "tokens_bounded (run env ops db)" using assms by (rule bounded_run)
next
  show "refreshTokens (storeRefreshToken rt now u) =
       drop (length (refreshTokens u) + 1 - 5)
         (refreshTokens u @ [\<lparr>token = rt, createdAt = now\<rparr>])"
    by (rule storeRefreshToken_tokens)
next
  let ?rt = "jwt_sign env (uid u) (jwt_refreshSecret env) (jwt_refreshExpiresIn env) now"
  let ?f = "\<lambda>d. d\<lparr>refreshTokens := refreshTokens (storeRefreshToken ?rt now u),
                   updatedAt := now, version := version d + 1\<rparr>"
  assume a: "distinct (map uid db) \<and> findById (uid u) db = Some u"
  then have "active u" by (auto simp: findById_def dest: findOne_SomeD)
  with a have "findById (uid u) (updateOne (uid u) ?f db) = Some (?f u)"
    by (intro findById_updateOne) auto
  moreover have "?f u = (storeRefreshToken ?rt now u)\<lparr>updatedAt := now, version := version u + 1\<rparr>"
    by (simp add: storeRefreshToken_def Let_def)
  ultimately show "findById (uid u) (fst (createSendToken env now u code db)) =
      Some ((storeRefreshToken ?rt now u)\<lparr>updatedAt := now, version := version u + 1\<rparr>)"
    by (simp add: createSendToken_db Document_save_def)
qed

text \<open>
  A signup and a login on the empty collection; and a sixth token \<open>f\<close> pushed on the
  list \<open>a, b, c, d, e\<close>, which evicts \<open>a\<close>.
\<close>

theorem refresh_tokens_bounded_witness:
  "tokens_bounded [] \<and>
   tokens_bounded (run demo_env
     [(1000, Signup ''r4nd0m'' signup_request),
      (2000, Login (login_request ''a@b.com'' ''Secret123!''))] []) \<and>
   map token (refreshTokens (storeRefreshToken ''f'' 6 demo_user_five_tokens)) =
     [''b'', ''c'', ''d'', ''e'', ''f'']"
proof -
  have e: "tokens_bounded []" by (simp add: tokens_bounded_def)
  from refresh_tokens_bounded[OF e, where rt = "''f''" and now = 6 and u = demo_user_five_tokens]
  show ?thesis using e by (simp add: demo_defs)
qed

section \<open>Lockout\<close>

lemma login_locked:
  assumes "body_email rq = Some em" and "body_password rq = Some pw"
    and "em \<noteq> []" and "pw \<noteq> []"
    and "findOne (\<lambda>d. email d = castEmail env em) db = Some u" and "isLocked now u"
  shows "login env now rq db =
    (db, NextErr (ApiError 423
       ''Account temporarily locked due to too many failed login attempts''))"
  using assms by (simp add: login_def)

lemma login_wrong_password:
  assumes "body_email rq = Some em" and "body_password rq = Some pw"
    and "em \<noteq> []" and "pw \<noteq> []"
    and "findOne (\<lambda>d. email d = castEmail env em) db = Some u" and "\<not> isLocked now u"
    and "\<not> correctPassword env pw (password u)"
  shows "login env now rq db =
    (Document_updateOne now u (incLoginAttempts now u) db,
     NextErr (ApiError 401 ''Incorrect email or password''))"
  using assms by (simp add: login_def)

text \<open>
  The update \<open>incLoginAttempts\<close> sends, with its stamp, applied to the document it was
  computed from.
\<close>

lemma incLoginAttempts_self:
  "\<not> isLocked now u \<Longrightarrow> (incLoginAttempts now u u)\<lparr>updatedAt := now\<rparr> =
     (if (\<exists>l. lockUntil u = Some l \<and> l < now)
      then u\<lparr>lockUntil := None, loginAttempts := 1, updatedAt := now\<rparr>
      else if 5 \<le> loginAttempts u + 1
      then u\<lparr>loginAttempts := loginAttempts u + 1,
             lockUntil := Some (now + 2 * 60 * 60 * 1000), updatedAt := now\<rparr>
      else u\<lparr>loginAttempts := loginAttempts u + 1, updatedAt := now\<rparr>)"
  by (auto simp: incLoginAttempts_def split: option.splits)

lemma login_failure_effect:
  assumes "body_email rq = Some em" and "body_password rq = Some pw"
    and "em \<noteq> []" and "pw \<noteq> []"
    and "distinct (map uid db)"
    and "findOne (\<lambda>d. email d = castEmail env em) db = Some u" and "\<not> isLocked now u"
    and "\<not> correctPassword env pw (password u)"
  shows "snd (login env now rq db) = NextErr (ApiError 401 ''Incorrect email or password'') \<and>
     findOne (\<lambda>d. email d = castEmail env em) (fst (login env now rq db)) =
       Some (if (\<exists>l. lockUntil u = Some l \<and> l < now)
             then u\<lparr>lockUntil := None, loginAttempts := 1, updatedAt := now\<rparr>
             else if 5 \<le> loginAttempts u + 1
             then u\<lparr>loginAttempts := loginAttempts u + 1,
                    lockUntil := Some (now + 2 * 60 * 60 * 1000), updatedAt := now\<rparr>
             else u\<lparr>loginAttempts := loginAttempts u + 1, updatedAt := now\<rparr>)"
proof -
  from assms(6) have u: "email u = castEmail env em" "active u"
    by (auto dest: findOne_SomeD)
  have "findOne (\<lambda>d. email d = castEmail env em)
          (updateOne (uid u) (\<lambda>d. (incLoginAttempts now u d)\<lparr>updatedAt := now\<rparr>) db) =
          Some ((incLoginAttempts now u u)\<lparr>updatedAt := now\<rparr>)"
    using assms(5,6) u by (intro findOne_updateOne) simp_all
  then show ?thesis
    unfolding login_wrong_password[OF assms(1-4) assms(6-8)] incLoginAttempts_self[OF assms(7)]
      fst_conv snd_conv Document_updateOne_def
    by (intro conjI refl)
qed

text \<open>
  Fewer than five failures on an account with no lock recorded only count up. The
  attempts may write the account's email in any way the setters map to the stored one.
\<close>

lemma failed_logins_count:
  assumes "distinct (map uid db)" and "findOne (\<lambda>d. email d = castEmail env em) db = Some u"
    and "lockUntil u = None" and "loginAttempts u + length atts < 5"
    and "\<forall>(t, r) \<in> set atts.
           \<exists>e p. body_email r = Some e \<and> e \<noteq> [] \<and> castEmail env e = castEmail env em \<and>
                 body_password r = Some p \<and> p \<noteq> [] \<and>
                 \<not> correctPassword env p (password u)"
  shows "distinct (map uid (run env (map (\<lambda>(t, r). (t, Login r)) atts) db)) \<and>
         (\<exists>u'. findOne (\<lambda>d. email d = castEmail env em)
                  (run env (map (\<lambda>(t, r). (t, Login r)) atts) db) = Some u' \<and>
               loginAttempts u' = loginAttempts u + length atts \<and> lockUntil u' = None \<and>
               password u' = password u)"
  using assms
proof (induction atts arbitrary: db u)
  case Nil
  then show ?case by (simp add: run_def)
next
  case (Cons a atts)
  obtain t r where a: "a = (t, r)" by (cases a)
  from Cons.prems(5) a obtain e p where r: "body_email r = Some e" "e \<noteq> []"
    "castEmail env e = castEmail env em" "body_password r = Some p"
    "p \<noteq> []" "\<not> correctPassword env p (password u)" by auto
  have nl: "\<not> isLocked t u" using Cons.prems(3) by (simp add: isLocked_def)
  have fe: "findOne (\<lambda>d. email d = castEmail env e) db = Some u"
    using Cons.prems(2) r(3) by simp
  let ?db1 = "fst (login env t r db)"
  let ?u1 = "u\<lparr>loginAttempts := loginAttempts u + 1, updatedAt := t\<rparr>"
  have db1: "?db1 = Document_updateOne t u (incLoginAttempts t u) db"
    using login_wrong_password[OF r(1) r(4) r(2) r(5) fe nl r(6)] by simp
  have d1: "distinct (map uid ?db1)"
    using Cons.prems(1) by (simp add: db1 Document_updateOne_def map_uid_updateOne)
  have f1: "findOne (\<lambda>d. email d = castEmail env em) ?db1 = Some ?u1"
    using login_failure_effect[OF r(1) r(4) r(2) r(5) Cons.prems(1) fe nl r(6)]
      Cons.prems(3,4) r(3) by simp
  have "distinct (map uid (run env (map (\<lambda>(t, r). (t, Login r)) atts) ?db1)) \<and>
        (\<exists>u'. findOne (\<lambda>d. email d = castEmail env em)
                 (run env (map (\<lambda>(t, r). (t, Login r)) atts) ?db1) = Some u' \<and>
              loginAttempts u' = loginAttempts ?u1 + length atts \<and> lockUntil u' = None \<and>
              password u' = password ?u1)"
    using Cons.prems(3,4,5) by (intro Cons.IH[OF d1 f1]) auto
  then show ?case by (simp add: a run_def)
qed

text \<open>
  Claim C3, as the code has it. A login request submits an email and a password, both
  non-empty (the handler answers 400 otherwise), and \<open>u\<close> is the account the handler's
  query finds for it: the first document that is not deactivated and whose email is the
  submitted one, trimmed and lower-cased. If \<open>lockUntil\<close> of \<open>u\<close> lies in the future,
  the request ends with 423 \<open>Account temporarily locked\<dots>\<close> and changes nothing. The
  password is not looked at: the statement holds for every submitted password and every
  behaviour of \<open>bcrypt.compare\<close>, so also for the correct password. In particular, on
  an account with no failures counted and no lock, after five attempts \<open>atts\<close> with
  wrong passwords, any attempt earlier than two hours after the fifth ends with 423.
\<close>

theorem locked_account_login_rejected:
  assumes "body_email rq = Some em" and "body_password rq = Some pw"
    and "em \<noteq> []" and "pw \<noteq> []"
    and "findOne (\<lambda>d. email d = castEmail env em) db = Some u"
  shows "(isLocked now u \<longrightarrow>
            login env now rq db =
              (db, NextErr (ApiError 423
                 ''Account temporarily locked due to too many failed login attempts''))) \<and>
         (distinct (map uid db) \<and> loginAttempts u = 0 \<and> lockUntil u = None \<and>
          length atts = 5 \<and>
          (\<forall>(t, r) \<in> set atts.
             \<exists>e p. body_email r = Some e \<and> e \<noteq> [] \<and> castEmail env e = castEmail env em \<and>
                   body_password r = Some p \<and> p \<noteq> [] \<and>
                   \<not> correctPassword env p (password u)) \<and>
          now < fst (last atts) + 2 * 60 * 60 * 1000 \<longrightarrow>
            login env now rq (run env (map (\<lambda>(t, r). (t, Login r)) atts) db) =
              (run env (map (\<lambda>(t, r). (t, Login r)) atts) db,
               NextErr (ApiError 423
                 ''Account temporarily locked due to too many failed login attempts'')))"
proof (intro conjI impI)
  assume "isLocked now u"
  then show "login env now rq db =
              (db, NextErr (ApiError 423
                 ''Account temporarily locked due to too many failed login attempts''))"
    using assms by (rule login_locked[rotated -1])
next
  assume h: "distinct (map uid db) \<and> loginAttempts u = 0 \<and> lockUntil u = None \<and>
          length atts = 5 \<and>
          (\<forall>(t, r) \<in> set atts.
             \<exists>e p. body_email r = Some e \<and> e \<noteq> [] \<and> castEmail env e = castEmail env em \<and>
                   body_password r = Some p \<and> p \<noteq> [] \<and>
                   \<not> correctPassword env p (password u)) \<and>
          now < fst (last atts) + 2 * 60 * 60 * 1000"
  let ?L = "map (\<lambda>(t, r). (t, Login r))"
  from h have ne: "atts \<noteq> []" by auto
  obtain t5 r5 where l: "last atts = (t5, r5)" by (cases "last atts")
  have split: "atts = butlast atts @ [(t5, r5)]" using ne l by (metis append_butlast_last_id)
  have inl: "(t5, r5) \<in> set atts" using ne l by (metis last_in_set)
  with h obtain e p where r5: "body_email r5 = Some e" "e \<noteq> []"
    "castEmail env e = castEmail env em" "body_password r5 = Some p" "p \<noteq> []"
    "\<not> correctPassword env p (password u)" by auto
  let ?db4 = "run env (?L (butlast atts)) db"
  have "distinct (map uid ?db4) \<and>
        (\<exists>u'. findOne (\<lambda>d. email d = castEmail env em) ?db4 = Some u' \<and>
              loginAttempts u' = loginAttempts u + length (butlast atts) \<and>
              lockUntil u' = None \<and> password u' = password u)"
    using h assms(5) by (intro failed_logins_count) (auto dest: in_set_butlastD)
  then obtain u4 where d4: "distinct (map uid ?db4)"
    and f4: "findOne (\<lambda>d. email d = castEmail env e) ?db4 = Some u4"
    and u4: "loginAttempts u4 = 4" "lockUntil u4 = None" "password u4 = password u"
    using h r5(3) by auto
  have nl: "\<not> isLocked t5 u4" using u4 by (simp add: isLocked_def)
  let ?db5 = "fst (login env t5 r5 ?db4)"
  let ?u5 = "u4\<lparr>loginAttempts := 5, lockUntil := Some (t5 + 2 * 60 * 60 * 1000),
               updatedAt := t5\<rparr>"
  have "findOne (\<lambda>d. email d = castEmail env e) ?db5 = Some ?u5"
    using login_failure_effect[OF r5(1) r5(4) r5(2) r5(5) d4 f4 nl] r5(6) u4 by simp
  moreover have "run env (?L atts) db = ?db5"
    by (subst split) (simp add: run_append, simp add: run_def)
  ultimately have f5: "findOne (\<lambda>d. email d = castEmail env em) (run env (?L atts) db) =
      Some ?u5"
    using r5(3) by simp
  have "isLocked now ?u5"
    using h l by (simp add: isLocked_def)
  then show "login env now rq (run env (?L atts) db) =
              (run env (?L atts) db,
               NextErr (ApiError 423
                 ''Account temporarily locked due to too many failed login attempts''))"
    by (rule login_locked[OF assms(1-4) f5])
qed

text \<open>
  An account locked until 7000, addressed as \<open>A@B.com\<close> with a blank before it; and the
  scenario of the spec: five wrong passwords at 1000, \<dots>, 5000, then the correct
  password at 6000.
\<close>

theorem locked_account_login_rejected_witness:
  "login demo_env 6000 (login_request '' A@B.com'' ''Secret123!'')
      [demo_user\<lparr>lockUntil := Some 7000\<rparr>] =
     ([demo_user\<lparr>lockUntil := Some 7000\<rparr>],
      NextErr (ApiError 423
        ''Account temporarily locked due to too many failed login attempts'')) \<and>
   login demo_env 6000 (login_request ''a@b.com'' ''Secret123!'')
      (run demo_env (map (\<lambda>(t, r). (t, Login r)) five_wrong_attempts) [demo_user]) =
     (run demo_env (map (\<lambda>(t, r). (t, Login r)) five_wrong_attempts) [demo_user],
      NextErr (ApiError 423
        ''Account temporarily locked due to too many failed login attempts''))"
proof
  show "login demo_env 6000 (login_request '' A@B.com'' ''Secret123!'')
      [demo_user\<lparr>lockUntil := Some 7000\<rparr>] =
     ([demo_user\<lparr>lockUntil := Some 7000\<rparr>],
      NextErr (ApiError 423
        ''Account temporarily locked due to too many failed login attempts''))"
    using locked_account_login_rejected[where rq = "login_request '' A@B.com'' ''Secret123!''"
        and em = "'' A@B.com''" and pw = "''Secret123!''"
        and db = "[demo_user\<lparr>lockUntil := Some 7000\<rparr>]"
        and u = "demo_user\<lparr>lockUntil := Some 7000\<rparr>"
        and now = 6000 and atts = "[]" and env = demo_env]
    by (simp add: demo_defs findOne_def isLocked_def)
  show "login demo_env 6000 (login_request ''a@b.com'' ''Secret123!'')
      (run demo_env (map (\<lambda>(t, r). (t, Login r)) five_wrong_attempts) [demo_user]) =
     (run demo_env (map (\<lambda>(t, r). (t, Login r)) five_wrong_attempts) [demo_user],
      NextErr (ApiError 423
        ''Account temporarily locked due to too many failed login attempts''))"
    using locked_account_login_rejected[where rq = "login_request ''a@b.com'' ''Secret123!''"
        and em = "''a@b.com''" and pw = "''Secret123!''" and db = "[demo_user]" and u = demo_user
        and now = 6000 and atts = five_wrong_attempts and env = demo_env]
    by (simp add: demo_defs findOne_def isLocked_def correctPassword_def)
qed

text \<open>The collection after the five failures: the counter stands at 5, the lock is set.\<close>

lemma five_wrong_attempts_state:
  "run demo_env (map (\<lambda>(t, r). (t, Login r)) five_wrong_attempts) [demo_user] =
     [demo_user\<lparr>loginAttempts := 5, lockUntil := Some 7205000, updatedAt := 5000\<rparr>]"
  by code_simp

text \<open>
  Against claim C3 as stated. The account of \<open>a@b.com\<close> is locked until 7000 and
  deactivated: a login at 6000 with the right password ends with 401, not 423, since
  the query does not find the account. And on the locked, active account a login that
  submits no password ends with 400.
\<close>

theorem locked_deactivated_account_gets_401:
  "isLocked 6000 (demo_user\<lparr>active := False, lockUntil := Some 7000\<rparr>) \<and>
   login demo_env 6000 (login_request ''a@b.com'' ''Secret123!'')
      [demo_user\<lparr>active := False, lockUntil := Some 7000\<rparr>] =
     ([demo_user\<lparr>active := False, lockUntil := Some 7000\<rparr>],
      NextErr (ApiError 401 ''Incorrect email or password'')) \<and>
   login demo_env 6000 (demo_request\<lparr>body_email := Some ''a@b.com''\<rparr>)
      [demo_user\<lparr>lockUntil := Some 7000\<rparr>] =
     ([demo_user\<lparr>lockUntil := Some 7000\<rparr>],
      NextErr (ApiError 400 ''Please provide email and password!''))"
  by (simp add: login_def isLocked_def findOne_def demo_defs)




section \<open>Password changes\<close>

text \<open>The \<open>save()\<close> of a modified, valid password.\<close>

lemma save_password_modified:
  assumes "body_password rq = Some pw" and "password_valid (Some pw) (body_passwordConfirm rq)"
  shows "save_password env now True c rq u db =
     Inr ((if c then u\<lparr>password := bcrypt_hash env pw, passwordConfirm := None,
                        passwordResetToken := None, passwordResetExpires := None,
                        passwordChangedAt := Some (now - 1000)\<rparr>
           else u\<lparr>password := bcrypt_hash env pw, passwordConfirm := None,
                  passwordChangedAt := Some (now - 1000)\<rparr>),
          updateOne (uid u)
            (\<lambda>d. if c then d\<lparr>password := bcrypt_hash env pw, passwordConfirm := None,
                               passwordChangedAt := Some (now - 1000),
                               passwordResetToken := None, passwordResetExpires := None,
                               updatedAt := now\<rparr>
                  else d\<lparr>password := bcrypt_hash env pw, passwordConfirm := None,
                         passwordChangedAt := Some (now - 1000), updatedAt := now\<rparr>) db)"
proof -
  have "(\<lambda>d. (if c then d\<lparr>password := bcrypt_hash env pw, passwordConfirm := None,
                          passwordChangedAt := Some (now - 1000),
                          passwordResetToken := None, passwordResetExpires := None\<rparr>
               else d\<lparr>password := bcrypt_hash env pw, passwordConfirm := None,
                      passwordChangedAt := Some (now - 1000)\<rparr>)
              \<lparr>updatedAt := now, version := version d\<rparr>) =
        (\<lambda>d. if c then d\<lparr>password := bcrypt_hash env pw, passwordConfirm := None,
                          passwordChangedAt := Some (now - 1000),
                          passwordResetToken := None, passwordResetExpires := None,
                          updatedAt := now\<rparr>
               else d\<lparr>password := bcrypt_hash env pw, passwordConfirm := None,
                      passwordChangedAt := Some (now - 1000), updatedAt := now\<rparr>)"
    by (rule ext) simp
  with assms show ?thesis
    by (auto simp: save_password_def password_valid_def pre_save_hash_def
          pre_save_changedAt_def Document_save_def Let_def split: option.splits)
qed

text \<open>
  The stored document after the save and the token issuance that follows it in both
  handlers.
\<close>

lemma password_change_stored:
  assumes ids: "distinct (map uid db)" and u: "u \<in> set db" "active u"
    and pw: "body_password rq = Some pw" "password_valid (Some pw) (body_passwordConfirm rq)"
    and sv: "save_password env now True c rq u db = Inr (saved, db1)"
  shows "\<exists>u'. findById (uid u) (fst (createSendToken env now saved code db1)) = Some u' \<and>
           passwordChangedAt u' = Some (now - 1000) \<and> password u' = bcrypt_hash env pw \<and>
           passwordResetToken u' = (if c then None else passwordResetToken u) \<and>
           passwordResetExpires u' = (if c then None else passwordResetExpires u) \<and> active u'"
proof -
  let ?f = "\<lambda>d. if c then d\<lparr>password := bcrypt_hash env pw, passwordConfirm := None,
                               passwordChangedAt := Some (now - 1000),
                               passwordResetToken := None, passwordResetExpires := None,
                               updatedAt := now\<rparr>
                  else d\<lparr>password := bcrypt_hash env pw, passwordConfirm := None,
                         passwordChangedAt := Some (now - 1000), updatedAt := now\<rparr>"
  from sv have s: "uid saved = uid u" and db1: "db1 = updateOne (uid u) ?f db"
    unfolding save_password_modified[OF pw] by auto
  have f0: "findById (uid u) db = Some u" using ids u by (rule findById_member)
  have f1: "findById (uid u) db1 = Some (?f u)"
    unfolding db1 using ids f0 u(2) by (intro findById_updateOne) auto
  have d1: "distinct (map uid db1)" using ids by (simp add: db1 map_uid_updateOne)
  let ?g = "\<lambda>d. d\<lparr>refreshTokens := refreshTokens
          (storeRefreshToken
             (jwt_sign env (uid saved) (jwt_refreshSecret env) (jwt_refreshExpiresIn env) now)
             now saved),
          updatedAt := now, version := version d + 1\<rparr>"
  have "findById (uid u) (updateOne (uid u) ?g db1) = Some (?g (?f u))"
    using d1 f1 u(2) by (intro findById_updateOne) auto
  then show ?thesis
    using u(2) by (simp add: createSendToken_db Document_save_def s)
qed

text \<open>
  Claim C6. Ids are unique, and the presented reset token \<open>tk\<close> is valid and unexpired:
  its hash is stored on the active user \<open>u\<close>, with an expiry after \<open>now\<close>, and on no
  other document (the token is 32 random bytes). With a new password that passes
  validation, \<open>resetPassword\<close> answers 200 with a token pair, and the stored user then
  has the hash of the new password, \<open>passwordChangedAt = now - 1000\<close> and neither reset
  path; presenting \<open>tk\<close> again, at
  any time and with any body, fails with 400 \<open>Token is invalid or has expired\<close> and
  changes nothing.
\<close>

theorem reset_token_single_use:
  assumes ids: "distinct (map uid db)"
    and tk: "params_token rq = tk"
    and found: "findOne (\<lambda>d. passwordResetToken d = Some (sha256 env tk) \<and>
                   (case passwordResetExpires d of Some e \<Rightarrow> e > now | None \<Rightarrow> False)) db
                = Some u"
    and uniq: "\<forall>d \<in> set db. passwordResetToken d = Some (sha256 env tk) \<longrightarrow> d = u"
    and pw: "body_password rq = Some pw" "password_valid (Some pw) (body_passwordConfirm rq)"
  shows "snd (resetPassword env now rq db) =
           Respond 200
             (TokenResponse (jwt_sign env (uid u) (jwt_secret env) (jwt_expiresIn env) now)
                (jwt_sign env (uid u) (jwt_refreshSecret env) (jwt_refreshExpiresIn env) now)) \<and>
         (\<exists>u'. findById (uid u) (fst (resetPassword env now rq db)) = Some u' \<and>
            password u' = bcrypt_hash env pw \<and> passwordChangedAt u' = Some (now - 1000) \<and>
            passwordResetToken u' = None \<and> passwordResetExpires u' = None) \<and>
         (\<forall>now' rq'. params_token rq' = tk \<longrightarrow>
            resetPassword env now' rq' (fst (resetPassword env now rq db)) =
              (fst (resetPassword env now rq db),
               NextErr (ApiError 400 ''Token is invalid or has expired'')))"
proof -
  from found have u: "u \<in> set db" "active u" by (auto dest: findOne_SomeD)
  obtain saved db1 where sv: "save_password env now True True rq u db = Inr (saved, db1)"
    by (simp add: save_password_modified[OF pw])
  then have s: "uid saved = uid u" unfolding save_password_modified[OF pw] by auto
  have r: "resetPassword env now rq db = createSendToken env now saved 200 db1"
    using found sv tk by (simp add: resetPassword_def)
  let ?db' = "fst (resetPassword env now rq db)"
  have out: "snd (resetPassword env now rq db) =
           Respond 200
             (TokenResponse (jwt_sign env (uid u) (jwt_secret env) (jwt_expiresIn env) now)
                (jwt_sign env (uid u) (jwt_refreshSecret env) (jwt_refreshExpiresIn env) now))"
    by (simp add: r createSendToken_outcome s)
  have stored: "\<exists>u'. findById (uid u) ?db' = Some u' \<and>
            password u' = bcrypt_hash env pw \<and> passwordChangedAt u' = Some (now - 1000) \<and>
            passwordResetToken u' = None \<and> passwordResetExpires u' = None"
    using password_change_stored[OF ids u pw sv, of 200] by (auto simp: r)
  have gone: "\<forall>d \<in> set ?db'. passwordResetToken d \<noteq> Some (sha256 env tk)"
  proof -
    have db1: "db1 = map (\<lambda>d. if uid d = uid u
                 then d\<lparr>password := bcrypt_hash env pw, passwordConfirm := None,
                        passwordChangedAt := Some (now - 1000),
                        passwordResetToken := None, passwordResetExpires := None,
                        updatedAt := now\<rparr>
                 else d) db"
      using sv unfolding save_password_modified[OF pw] by (simp add: updateOne_eq_map[OF ids])
    have d1: "distinct (map uid db1)"
      using ids by (simp add: db1 o_def if_distrib cong: if_cong)
    show ?thesis
      unfolding r createSendToken_db Document_save_def updateOne_eq_map[OF d1]
      using uniq by (auto simp: db1 s)
  qed
  have replay: "resetPassword env now' rq' ?db' =
      (?db', NextErr (ApiError 400 ''Token is invalid or has expired''))"
    if "params_token rq' = tk" for now' rq'
  proof -
    have "findOne (\<lambda>d. passwordResetToken d = Some (sha256 env tk) \<and>
             (case passwordResetExpires d of Some e \<Rightarrow> e > now' | None \<Rightarrow> False)) ?db' = None"
      using gone by (simp add: findOne_None_iff)
    then show ?thesis using that by (simp add: resetPassword_def)
  qed
  from out stored replay show ?thesis by blast
qed

text \<open>
  The token \<open>r4nd0m\<close> is consumed at 6000 and presented again at 7000, within its ten
  minutes.
\<close>

theorem reset_token_single_use_witness:
  "snd (resetPassword demo_env 6000 (reset_request ''r4nd0m'' ''Secret456!'') [demo_user_reset]) =
     Respond 200 (TokenResponse ''k1.u.ssssss'' ''k2.u.ssssss'') \<and>
   resetPassword demo_env 7000 (reset_request ''r4nd0m'' ''Other789!'')
     (fst (resetPassword demo_env 6000 (reset_request ''r4nd0m'' ''Secret456!'')
             [demo_user_reset])) =
     (fst (resetPassword demo_env 6000 (reset_request ''r4nd0m'' ''Secret456!'')
             [demo_user_reset]),
      NextErr (ApiError 400 ''Token is invalid or has expired''))"
  using reset_token_single_use[where db = "[demo_user_reset]"
      and rq = "reset_request ''r4nd0m'' ''Secret456!''" and tk = "''r4nd0m''" and env = demo_env
      and now = 6000 and u = demo_user_reset and pw = "''Secret456!''"]
  by (simp add: demo_defs findOne_def password_valid_def eval_nat_numeral)

text \<open>The guard's answer to a verified token of a user whose password changed at \<open>now\<close>.\<close>

lemma protect_after_change:
  assumes "findById i db = Some u'" and "passwordChangedAt u' = Some (now - 1000)"
    and "active u'"
    and "getToken rq = Some tk" and "tk \<noteq> []"
    and "jwt_verify env tk (jwt_secret env) now' = Inr decoded" and "jwt_id decoded = i"
  shows "snd (protect env db now' rq) =
     (if iat decoded < parseInt_div1000 (now - 1000)
      then NextErr (ApiError 401 ''User recently changed password! Please log in again.'')
      else Next)"
  using assms by (simp add: protect_def changedPasswordAfter_def)

lemma parseInt_skew: "1000 \<le> now \<Longrightarrow> parseInt_div1000 (now - 1000) = now div 1000 - 1"
  by (simp add: parseInt_div1000_def)

text \<open>
  Claim C1, as the code has it. The password of the stored user \<open>u\<close> is changed at time
  \<open>now\<close>, by \<open>resetPassword\<close> (a valid reset token) or by \<open>updatePassword\<close> (the right
  current password, and a submitted value other than the stored hash string, so that the
  path counts as modified), with a new password that passes validation; \<open>db'\<close> is the
  collection afterwards. A token of \<open>u\<close> that
  verifies is then refused by \<open>protect\<close> with 401 \<open>User recently changed password!
  Please log in again.\<close> exactly when its \<open>iat\<close> is less than the second of
  \<open>now - 1000\<close>; otherwise the guard lets it pass. From \<open>now = 1000\<close> on that second is
  \<open>now div 1000 - 1\<close>: a token issued two or more seconds (by the clock's second count)
  before the change is refused, one issued in the second of the change or in the second
  before it is not.
\<close>

theorem password_change_invalidates_older_tokens:
  assumes ids: "distinct (map uid db)"
    and change:
      "(findOne (\<lambda>d. passwordResetToken d = Some (sha256 env (params_token rq)) \<and>
           (case passwordResetExpires d of Some e \<Rightarrow> e > now | None \<Rightarrow> False)) db = Some u \<and>
        db' = fst (resetPassword env now rq db)) \<or>
       (req_user rq = Some ru \<and> findById (uid ru) db = Some u \<and>
        body_passwordCurrent rq = Some cur \<and> correctPassword env cur (password u) \<and>
        body_password rq \<noteq> Some (password u) \<and>
        db' = fst (updatePassword env now rq db))"
    and pw: "body_password rq = Some pw" "password_valid (Some pw) (body_passwordConfirm rq)"
    and tok: "getToken rq' = Some tk" "tk \<noteq> []"
      "jwt_verify env tk (jwt_secret env) now' = Inr decoded" "jwt_id decoded = uid u"
  shows "snd (protect env db' now' rq') =
     (if iat decoded < parseInt_div1000 (now - 1000)
      then NextErr (ApiError 401 ''User recently changed password! Please log in again.'')
      else Next) \<and>
     (1000 \<le> now \<longrightarrow> parseInt_div1000 (now - 1000) = now div 1000 - 1)"
proof -
  have "\<exists>u'. findById (uid u) db' = Some u' \<and> passwordChangedAt u' = Some (now - 1000) \<and>
          active u'"
    using change
  proof (elim disjE conjE)
    assume f: "findOne (\<lambda>d. passwordResetToken d = Some (sha256 env (params_token rq)) \<and>
           (case passwordResetExpires d of Some e \<Rightarrow> e > now | None \<Rightarrow> False)) db = Some u"
      and d: "db' = fst (resetPassword env now rq db)"
    from f have u: "u \<in> set db" "active u" by (auto dest: findOne_SomeD)
    obtain saved db1 where sv: "save_password env now True True rq u db = Inr (saved, db1)"
      by (simp add: save_password_modified[OF pw])
    have "resetPassword env now rq db = createSendToken env now saved 200 db1"
      using f sv by (simp add: resetPassword_def)
    with password_change_stored[OF ids u pw sv, of 200] d show ?thesis by auto
  next
    assume a: "req_user rq = Some ru" "findById (uid ru) db = Some u"
      "body_passwordCurrent rq = Some cur" "correctPassword env cur (password u)"
      "body_password rq \<noteq> Some (password u)"
      and d: "db' = fst (updatePassword env now rq db)"
    from a(2) have u: "u \<in> set db" "active u" by (auto simp: findById_def dest: findOne_SomeD)
    obtain saved db1 where sv: "save_password env now True False rq u db = Inr (saved, db1)"
      by (simp add: save_password_modified[OF pw])
    have "updatePassword env now rq db = createSendToken env now saved 200 db1"
      using a sv by (simp add: updatePassword_def)
    with password_change_stored[OF ids u pw sv, of 200] d show ?thesis by auto
  qed
  then obtain u' where "findById (uid u) db' = Some u'"
    "passwordChangedAt u' = Some (now - 1000)" "active u'" by blast
  then have "snd (protect env db' now' rq') =
     (if iat decoded < parseInt_div1000 (now - 1000)
      then NextErr (ApiError 401 ''User recently changed password! Please log in again.'')
      else Next)"
    using tok by (intro protect_after_change) auto
  then show ?thesis by (simp add: parseInt_skew)
qed

text \<open>
  User 1 changes the password at 5900 with \<open>updatePassword\<close>; the token issued at 1200
  (\<open>iat = 1\<close>) is refused at 6000.
\<close>

theorem password_change_invalidates_older_tokens_witness:
  "snd (protect demo_env
      (fst (updatePassword demo_env 5900
              (update_password_request demo_user ''Secret123!'' ''Secret456!'') [demo_user]))
      6000 (bearer_request (demo_sign 1 ''k1'' ''7d'' 1200))) =
    NextErr (ApiError 401 ''User recently changed password! Please log in again.'')"
  using password_change_invalidates_older_tokens[where db = "[demo_user]" and env = demo_env
      and rq = "update_password_request demo_user ''Secret123!'' ''Secret456!''" and now = 5900
      and u = demo_user and ru = demo_user and cur = "''Secret123!''" and pw = "''Secret456!''"
      and db' = "fst (updatePassword demo_env 5900
              (update_password_request demo_user ''Secret123!'' ''Secret456!'') [demo_user])"
      and rq' = "bearer_request (demo_sign 1 ''k1'' ''7d'' 1200)"
      and tk = "demo_sign 1 ''k1'' ''7d'' 1200"
      and now' = 6000 and decoded = "\<lparr>jwt_id = 1, iat = 1\<rparr>"]
  by (simp add: demo_defs findById_def findOne_def correctPassword_def password_valid_def
       getToken_def startsWith_def parseInt_div1000_def eval_nat_numeral)

text \<open>
  Against claim C1 as stated. The token is issued to user 1 at 5200 (\<open>iat = 5\<close>); the
  password is changed at 5900, in the same second, so \<open>passwordChangedAt\<close> is 4900 and
  its second is 4; the old token is presented at 6000 and the guard lets it pass.
\<close>

theorem same_second_token_survives_password_change:
  "snd (protect demo_env
      (fst (updatePassword demo_env 5900
              (update_password_request demo_user ''Secret123!'' ''Secret456!'') [demo_user]))
      6000 (bearer_request (demo_sign 1 ''k1'' ''7d'' 5200))) = Next"
  by (simp add: protect_def updatePassword_def save_password_def demo_defs getToken_def
        startsWith_def findById_def findOne_def correctPassword_def password_valid_def
        pre_save_hash_def pre_save_changedAt_def createSendToken_def storeRefreshToken_def
        Document_save_def changedPasswordAfter_def parseInt_div1000_def eval_nat_numeral
        Let_def)

end
